theory Spec2Isabelle
  imports Complex_Main "HOL-Library.Sublist"
begin

section \<open>Python values\<close>

text \<open>
  A Python \<open>str\<close> is a sequence of Unicode code points, so a string is a list of
  code points and its length counts code points. A literal of the source that is pure
  ASCII is written \<open>lit ''...''\<close>.
\<close>

type_synonym codepoint = nat
type_synonym pystr = "codepoint list"

definition lit :: "string \<Rightarrow> pystr" where
  "lit s = map of_char s"

text \<open>
  What the interpreter decides from its Unicode tables and its configuration is not part
  of the repository. The model fixes the behaviour on ASCII, where it is the same for
  every interpreter, and takes the rest from a record:
  \<^item> \<open>rt_isalnum c\<close>: \<open>str.isalnum\<close> on a code point \<open>c \<ge> 128\<close>;
  \<^item> \<open>rt_upper c\<close>: \<open>str.upper\<close> on a code point \<open>c \<ge> 128\<close> (it may yield several
    code points);
  \<^item> \<open>rt_decimal c\<close>: the decimal digit value of a code point \<open>c \<ge> 128\<close>, if it is one;
  \<^item> \<open>rt_max_str_digits\<close>: the interpreter's limit on the digits \<open>int\<close> converts
    (\<open>0\<close> when there is none; it is looked at for more than 640 digits only);
  \<^item> \<open>rt_hash_password\<close>: the salted PBKDF2 digest \<open>hash_password\<close> returns for the
    password of this request;
  \<^item> \<open>rt_pad_year\<close>: whether \<open>strftime\<close> writes a year below 1000 with zeros in
    front (the C library of the platform decides: glibc does not).
\<close>

record py_runtime =
  rt_isalnum :: "codepoint \<Rightarrow> bool"
  rt_upper :: "codepoint \<Rightarrow> pystr"
  rt_decimal :: "codepoint \<Rightarrow> nat option"
  rt_max_str_digits :: nat
  rt_hash_password :: "pystr \<Rightarrow> pystr"
  rt_pad_year :: bool

definition is_ascii_digit :: "codepoint \<Rightarrow> bool" where
  "is_ascii_digit c \<longleftrightarrow> 48 \<le> c \<and> c \<le> 57"

definition is_ascii_upper :: "codepoint \<Rightarrow> bool" where
  "is_ascii_upper c \<longleftrightarrow> 65 \<le> c \<and> c \<le> 90"

definition is_ascii_lower :: "codepoint \<Rightarrow> bool" where
  "is_ascii_lower c \<longleftrightarrow> 97 \<le> c \<and> c \<le> 122"

definition is_ascii_letter :: "codepoint \<Rightarrow> bool" where
  "is_ascii_letter c \<longleftrightarrow> is_ascii_upper c \<or> is_ascii_lower c"

text \<open>\<open>ch.isalnum()\<close> for a single character.\<close>

definition py_isalnum :: "py_runtime \<Rightarrow> codepoint \<Rightarrow> bool" where
  "py_isalnum rt c =
     (if c < 128 then is_ascii_letter c \<or> is_ascii_digit c else rt_isalnum rt c)"

text \<open>\<open>s.upper()\<close>: every character is replaced by its upper-case mapping.\<close>

definition upper_char :: "py_runtime \<Rightarrow> codepoint \<Rightarrow> pystr" where
  "upper_char rt c =
     (if c < 128 then (if is_ascii_lower c then [c - 32] else [c]) else rt_upper rt c)"

definition py_upper :: "py_runtime \<Rightarrow> pystr \<Rightarrow> pystr" where
  "py_upper rt s = concat (map (upper_char rt) s)"

text \<open>
  The characters \<open>str.strip()\<close> removes and \<open>int\<close> accepts around a number: the
  code points Unicode classes as white space.
\<close>

definition py_isspace :: "codepoint \<Rightarrow> bool" where
  "py_isspace c \<longleftrightarrow>
     (9 \<le> c \<and> c \<le> 13) \<or> (28 \<le> c \<and> c \<le> 32) \<or> c = 133 \<or> c = 160 \<or> c = 5760 \<or>
     (8192 \<le> c \<and> c \<le> 8202) \<or> c = 8232 \<or> c = 8233 \<or> c = 8239 \<or> c = 8287 \<or> c = 12288"

definition py_strip :: "pystr \<Rightarrow> pystr" where
  "py_strip s = rev (dropWhile py_isspace (rev (dropWhile py_isspace s)))"

text \<open>\<open>s.split(sep)\<close> for a one-character separator: never an empty list.\<close>

fun py_split :: "codepoint \<Rightarrow> pystr \<Rightarrow> pystr list" where
  "py_split sep [] = [[]]"
| "py_split sep (c # cs) =
     (if c = sep then [] # py_split sep cs
      else (case py_split sep cs of
              [] \<Rightarrow> [[c]]
            | p # ps \<Rightarrow> (c # p) # ps))"

text \<open>
  \<open>int(s)\<close> in base 10. The interpreter first maps every non-ASCII white space to a
  blank and every non-ASCII decimal digit to its ASCII digit (anything else non-ASCII
  becomes \<open>?\<close>, which no number contains); then it drops the ASCII white space at both
  ends, reads an optional sign and the digits, where one underscore may stand between
  two digits. \<open>None\<close> is the \<open>ValueError\<close>.
\<close>

definition to_ascii_number :: "py_runtime \<Rightarrow> codepoint \<Rightarrow> codepoint" where
  "to_ascii_number rt c =
     (if c < 128 then c
      else if py_isspace c then 32
      else (case rt_decimal rt c of
              Some d \<Rightarrow> if d < 10 then 48 + d else 63
            | None \<Rightarrow> 63))"

definition is_ascii_space :: "codepoint \<Rightarrow> bool" where
  "is_ascii_space c \<longleftrightarrow> (9 \<le> c \<and> c \<le> 13) \<or> c = 32"

fun parse_digits :: "pystr \<Rightarrow> nat \<Rightarrow> bool \<Rightarrow> nat option" where
  "parse_digits [] acc after_digit = (if after_digit then Some acc else None)"
| "parse_digits (c # cs) acc after_digit =
     (if is_ascii_digit c then parse_digits cs (acc * 10 + (c - 48)) True
      else if c = 95 \<and> after_digit then parse_digits cs acc False
      else None)"

definition parse_unsigned :: "py_runtime \<Rightarrow> pystr \<Rightarrow> nat option" where
  "parse_unsigned rt s =
     (let digits = length (filter is_ascii_digit s)
      in if 640 < digits \<and> 0 < rt_max_str_digits rt \<and> rt_max_str_digits rt < digits
         then None
         else parse_digits s 0 False)"

definition py_int :: "py_runtime \<Rightarrow> pystr \<Rightarrow> int option" where
  "py_int rt s =
     (let t = map (to_ascii_number rt) s;
          body = rev (dropWhile is_ascii_space (rev (dropWhile is_ascii_space t)))
      in case body of
           [] \<Rightarrow> None
         | c # cs \<Rightarrow>
             if c = 45 then map_option (\<lambda>n. - int n) (parse_unsigned rt cs)
             else if c = 43 then map_option int (parse_unsigned rt cs)
             else map_option int (parse_unsigned rt (c # cs)))"

text \<open>
  Decimal rendering of a non-negative number, and the zero padding of the format
  specifications \<open>03d\<close>, \<open>%Y\<close>, \<open>%m\<close> and \<open>%d\<close>: zeros are added on the left up
  to the width, and a longer number is left as it is.
\<close>

fun dec :: "nat \<Rightarrow> pystr" where
  "dec n = (if n < 10 then [48 + n] else dec (n div 10) @ [48 + n mod 10])"

declare dec.simps [simp del]

definition zfill :: "nat \<Rightarrow> pystr \<Rightarrow> pystr" where
  "zfill w s = replicate (w - length s) 48 @ s"

text \<open>\<open>f"{n:03d}"\<close>: the sign counts towards the width.\<close>

definition format_03d :: "int \<Rightarrow> pystr" where
  "format_03d n =
     (if n < 0 then 45 # zfill 2 (dec (nat (- n))) else zfill 3 (dec (nat n)))"

text \<open>Python's \<open>a or b\<close> on strings and on optional strings: \<open>None\<close> and \<open>""\<close> are false.\<close>

definition or_str :: "pystr option \<Rightarrow> pystr \<Rightarrow> pystr" where
  "or_str a b = (case a of None \<Rightarrow> b | Some s \<Rightarrow> if s = [] then b else s)"

definition or_opt :: "pystr option \<Rightarrow> pystr option \<Rightarrow> pystr option" where
  "or_opt a b = (case a of None \<Rightarrow> b | Some s \<Rightarrow> if s = [] then b else Some s)"

text \<open>\<open>u if u is not None else cur\<close>.\<close>

definition if_not_none :: "'a option \<Rightarrow> 'a \<Rightarrow> 'a" where
  "if_not_none u cur = (case u of None \<Rightarrow> cur | Some v \<Rightarrow> v)"

definition if_not_none_opt :: "'a option \<Rightarrow> 'a option \<Rightarrow> 'a option" where
  "if_not_none_opt u cur = (case u of None \<Rightarrow> cur | Some v \<Rightarrow> Some v)"


section \<open>The store\<close>

text \<open>
  Each table is the list of its rows in insertion order. A column that may hold
  \<open>NULL\<close> is an option. The columns the request models declare as \<open>str\<close> (a
  template's \<open>name\<close>, the name and role columns of users and participants) hold
  strings. \<open>cpd_hours\<close> is a float that is only copied.
\<close>

record template_row =
  t_id :: int
  t_name :: pystr
  t_course_type :: "pystr option"
  t_default_title :: "pystr option"
  t_default_venue_id :: "int option"
  t_default_trainer :: "pystr option"
  t_default_capacity :: "int option"
  t_course_title :: "pystr option"
  t_provider_type :: "pystr option"
  t_validity_months :: "int option"
  t_cpd_hours :: "real option"

record course_row =
  c_id :: int
  c_course_ref :: "pystr option"
  c_course_date :: "pystr option"
  c_template_id :: "int option"
  c_course_title :: "pystr option"
  c_trainer :: "pystr option"
  c_venue_id :: "int option"
  c_capacity :: "int option"
  c_status :: "pystr option"

record venue_row =
  v_id :: int
  v_name :: "pystr option"

record user_row =
  u_id :: int
  u_first_name :: pystr
  u_surname :: pystr
  u_full_name :: pystr
  u_email :: "pystr option"
  u_role :: pystr
  u_must_change_password :: int
  u_password_hash :: pystr

record participant_row =
  p_id :: int
  p_course_id :: int
  p_first_name :: pystr
  p_surname :: pystr
  p_contact_number :: "pystr option"
  p_email :: "pystr option"
  p_payment_status :: "pystr option"
  p_joining_sent :: int
  p_notes :: "pystr option"

record db =
  course_templates :: "template_row list"
  courses :: "course_row list"
  venues :: "venue_row list"
  users :: "user_row list"
  participants :: "participant_row list"

text \<open>
  What a request ends with when it does not return its result: an \<open>HTTPException\<close>
  the endpoint raises, or an exception nothing catches, which the framework answers with
  status 500.
\<close>

datatype py_exception = OverflowError | TypeError

datatype http_error = HTTPException int pystr | Unhandled py_exception

fun response_status :: "http_error \<Rightarrow> int" where
  "response_status (HTTPException status_code detail) = status_code"
| "response_status (Unhandled e) = 500"

text \<open>A request has succeeded when it returns its result.\<close>

definition succeeded :: "'s \<times> ('e + 'a) \<Rightarrow> bool" where
  "succeeded res = (case snd res of Inl e \<Rightarrow> False | Inr v \<Rightarrow> True)"

text \<open>
  An integer of sqlite has 64 bits with sign. Python's integers are unbounded (and the
  request parser lets any through), and \<open>execute\<close> raises \<open>OverflowError\<close> when one
  of the integers bound to its statement does not fit; the statement is not run then.
\<close>

definition int64 :: "int \<Rightarrow> bool" where
  "int64 n \<longleftrightarrow> - (2 ^ 63) \<le> n \<and> n < 2 ^ 63"

definition bindable :: "int option list \<Rightarrow> bool" where
  "bindable params = list_all (\<lambda>p. case p of None \<Rightarrow> True | Some n \<Rightarrow> int64 n) params"

text \<open>The row \<open>fetchone()\<close> returns after \<open>SELECT ... WHERE id = ?\<close> has run.\<close>

definition fetchone :: "('r \<Rightarrow> int) \<Rightarrow> 'r list \<Rightarrow> int \<Rightarrow> 'r option" where
  "fetchone key rows i = find (\<lambda>r. key r = i) rows"

text \<open>
  \<open>execute("SELECT ... WHERE id = ?", (i,))\<close> and \<open>fetchone()\<close>. The ids a table
  holds are integers of sqlite, so an id that does not fit is the id of no row, and
  binding it raises. (The model looks into the table first: on every table sqlite can
  hold that is the same, and a row that is found needs no side condition on its id.)
\<close>

definition select_by_id :: "('r \<Rightarrow> int) \<Rightarrow> 'r list \<Rightarrow> int \<Rightarrow> py_exception + 'r option" where
  "select_by_id key rows i =
     (case fetchone key rows i of
        Some r \<Rightarrow> Inr (Some r)
      | None \<Rightarrow> if int64 i then Inr None else Inl OverflowError)"

text \<open>\<open>UPDATE ... SET ... WHERE id = ?\<close>: every row with that id is rewritten.\<close>

definition update_where :: "('r \<Rightarrow> int) \<Rightarrow> int \<Rightarrow> ('r \<Rightarrow> 'r) \<Rightarrow> 'r list \<Rightarrow> 'r list" where
  "update_where key i f rows = map (\<lambda>r. if key r = i then f r else r) rows"

text \<open>
  \<open>max(xs)\<close> of a list that is not empty (the callers check it), and
  \<open>cur.lastrowid\<close> after an \<open>INSERT\<close> that gives no id: sqlite assigns one more than
  the largest id of the table, and 1 in an empty table.
\<close>

fun py_max :: "int list \<Rightarrow> int" where
  "py_max [] = 0"
| "py_max (x # xs) = fold max xs x"

definition lastrowid :: "int list \<Rightarrow> int" where
  "lastrowid ids = (if ids = [] then 1 else py_max ids + 1)"

text \<open>
  The operator \<open>LIKE\<close> of sqlite: \<open>%\<close> (37) stands for any run of characters, \<open>_\<close>
  (95) for any one character, and any other character for itself, where an ASCII
  letter matches both of its cases.
\<close>

definition like_fold :: "codepoint \<Rightarrow> codepoint" where
  "like_fold c = (if is_ascii_lower c then c - 32 else c)"

fun like :: "pystr \<Rightarrow> pystr \<Rightarrow> bool" where
  "like [] t = (t = [])"
| "like (p # ps) [] = (p = 37 \<and> like ps [])"
| "like (p # ps) (c # cs) =
     (if p = 37 then like ps (c # cs) \<or> like (p # ps) cs
      else (p = 95 \<or> like_fold p = like_fold c) \<and> like ps cs)"

section \<open>Courses\<close>

record pydate =
  d_year :: nat
  d_month :: nat
  d_day :: nat

text \<open>\<open>CourseCreate\<close>, after the request parser has filled in the defaults.\<close>

record course_create =
  cc_template_id :: int
  cc_course_date :: pydate
  cc_venue_id :: "int option"
  cc_trainer :: pystr
  cc_capacity :: "int option"
  cc_status :: pystr

text \<open>
  The response model \<open>Course\<close>. Title, code and dates echo columns of the row read
  back; in a row that \<open>create_course\<close> has written they are never \<open>NULL\<close>.
\<close>

record course =
  r_id :: int
  r_title :: "pystr option"
  r_code :: "pystr option"
  r_start_date :: "pystr option"
  r_end_date :: "pystr option"
  r_trainer_name :: pystr
  r_venue_name :: pystr
  r_status :: pystr

definition get_template_shortname :: "py_runtime \<Rightarrow> pystr \<Rightarrow> pystr" where
  "get_template_shortname rt template_name =
     (let clean = concat (map (\<lambda>ch. [ch]) (filter (py_isalnum rt) template_name))
      in py_upper rt clean)"

text \<open>
  The rows the query of \<open>_get_next_cohort_number\<close> returns: the \<open>course_ref\<close> of the
  courses of the template whose reference matches \<open>%-<year>-%\<close>. A \<open>NULL\<close> matches
  nothing.
\<close>

definition select_course_refs :: "course_row list \<Rightarrow> int \<Rightarrow> pystr \<Rightarrow> pystr list" where
  "select_course_refs cs template_id pat =
     concat (map (\<lambda>c. case c_course_ref c of
                         None \<Rightarrow> []
                       | Some r \<Rightarrow> if c_template_id c = Some template_id \<and> like pat r then [r] else [])
                 cs)"

text \<open>The loop over the fetched rows, which appends to \<open>numbers\<close>.\<close>

fun scan_refs :: "py_runtime \<Rightarrow> pystr list \<Rightarrow> int list \<Rightarrow> int list" where
  "scan_refs rt [] numbers = numbers"
| "scan_refs rt (course_ref # rows) numbers =
     (if course_ref = [] then scan_refs rt rows numbers
      else let parts = py_split 45 course_ref in
        if length parts < 3 then scan_refs rt rows numbers
        else (case py_int rt (last parts) of
                Some n \<Rightarrow> scan_refs rt rows (numbers @ [n])
              | None \<Rightarrow> scan_refs rt rows numbers))"

definition get_next_cohort_number :: "py_runtime \<Rightarrow> course_row list \<Rightarrow> int \<Rightarrow> pystr \<Rightarrow> int" where
  "get_next_cohort_number rt cs template_id yr =
     (let rows = select_course_refs cs template_id ([37, 45] @ yr @ [45, 37]);
          numbers = scan_refs rt rows []
      in if numbers \<noteq> [] then py_max numbers + 1 else 1)"

text \<open>The joined query that list, get and create read a course back with.\<close>

definition select_course :: "db \<Rightarrow> int \<Rightarrow> (course_row \<times> venue_row option) option" where
  "select_course d course_id =
     map_option (\<lambda>c. (c, case c_venue_id c of
                            None \<Rightarrow> None
                          | Some v \<Rightarrow> fetchone v_id (venues d) v))
                (fetchone c_id (courses d) course_id)"

definition coalesce :: "pystr option \<Rightarrow> pystr \<Rightarrow> pystr" where
  "coalesce a b = (case a of None \<Rightarrow> b | Some s \<Rightarrow> s)"

definition row_to_course :: "course_row \<times> venue_row option \<Rightarrow> course" where
  "row_to_course row =
     (case row of (c, v) \<Rightarrow>
        \<lparr> r_id = c_id c,
          r_title = c_course_title c,
          r_code = c_course_ref c,
          r_start_date = c_course_date c,
          r_end_date = c_course_date c,
          r_trainer_name = coalesce (c_trainer c) [],
          r_venue_name = coalesce (case v of None \<Rightarrow> None | Some w \<Rightarrow> v_name w) [],
          r_status = coalesce (c_status c) (lit ''Planned'') \<rparr>)"

text \<open>
  \<open>strftime("%Y")\<close> and \<open>strftime("%Y-%m-%d")\<close>: the year in decimal, month and day
  in two digits. A year from 1000 on is written the same everywhere; a year below
  1000 has zeros in front up to four digits where the platform pads it, and no more
  digits than it needs elsewhere (year 999 is \<open>999\<close> under glibc).
\<close>

definition strftime_Y :: "py_runtime \<Rightarrow> pydate \<Rightarrow> pystr" where
  "strftime_Y rt dt = (if rt_pad_year rt then zfill 4 (dec (d_year dt)) else dec (d_year dt))"

definition strftime_Ymd :: "py_runtime \<Rightarrow> pydate \<Rightarrow> pystr" where
  "strftime_Ymd rt dt =
     strftime_Y rt dt @ [45] @ zfill 2 (dec (d_month dt)) @ [45] @ zfill 2 (dec (d_day dt))"

text \<open>
  The values \<open>create_course\<close> binds to its \<open>INSERT\<close>, computed from the template
  row it read, the courses in the table and the request.
\<close>

definition course_values ::
    "py_runtime \<Rightarrow> course_row list \<Rightarrow> template_row \<Rightarrow> course_create \<Rightarrow> int \<Rightarrow> course_row" where
  "course_values rt cs tmpl payload new_id =
     (let template_name = t_name tmpl;
          course_title = or_str (t_course_title tmpl) template_name;
          default_capacity =
            (case t_default_capacity tmpl of
               None \<Rightarrow> 12
             | Some n \<Rightarrow> if n \<noteq> 0 then n else 12);
          year_str = strftime_Y rt (cc_course_date payload);
          shortname = get_template_shortname rt template_name;
          next_cohort = get_next_cohort_number rt cs (cc_template_id payload) year_str;
          course_ref = shortname @ [45] @ year_str @ [45] @ format_03d next_cohort;
          capacity =
            (case cc_capacity payload of
               None \<Rightarrow> default_capacity
             | Some n \<Rightarrow> if n \<noteq> 0 \<and> n > 0 then n else default_capacity);
          status = (if cc_status payload \<noteq> [] then cc_status payload else lit ''Planned'');
          course_date_str = strftime_Ymd rt (cc_course_date payload)
      in \<lparr> c_id = new_id,
           c_course_ref = Some course_ref,
           c_course_date = Some course_date_str,
           c_template_id = Some (cc_template_id payload),
           c_course_title = Some course_title,
           c_trainer = Some (cc_trainer payload),
           c_venue_id = cc_venue_id payload,
           c_capacity = Some capacity,
           c_status = Some status \<rparr>)"

text \<open>
  \<open>create_course\<close>. The result is the store after the request and either the error
  the request ends with or the course returned. The \<open>INSERT\<close> binds \<open>venue_id\<close> and
  the capacity (the template's id has been bound by the \<open>SELECT\<close> before); when it
  raises, nothing has been written.
\<close>

definition create_course :: "py_runtime \<Rightarrow> db \<Rightarrow> course_create \<Rightarrow> db \<times> (http_error + course)" where
  "create_course rt d payload =
     (case select_by_id t_id (course_templates d) (cc_template_id payload) of
        Inl e \<Rightarrow> (d, Inl (Unhandled e))
      | Inr None \<Rightarrow> (d, Inl (HTTPException 404 (lit ''Template not found'')))
      | Inr (Some tmpl) \<Rightarrow>
          let new_id = lastrowid (map c_id (courses d));
              row = course_values rt (courses d) tmpl payload new_id
          in if \<not> bindable [c_venue_id row, c_capacity row]
             then (d, Inl (Unhandled OverflowError))
             else let d' = d \<lparr> courses := courses d @ [row] \<rparr>
                  in (case select_course d' new_id of
                        None \<Rightarrow> (d', Inl (HTTPException 500 (lit ''Failed to load created course'')))
                      | Some r \<Rightarrow> (d', Inr (row_to_course r))))"

section \<open>Course templates\<close>

record course_template_base =
  name :: pystr
  course_type :: "pystr option"
  course_title :: "pystr option"
  provider_type :: "pystr option"
  default_capacity :: "int option"
  validity_months :: "int option"
  cpd_hours :: "real option"
  default_trainer :: "pystr option"
  default_venue_id :: "int option"

record course_template_out = course_template_base +
  template_id :: int

record course_template_update =
  tu_name :: "pystr option"
  tu_course_type :: "pystr option"
  tu_course_title :: "pystr option"
  tu_provider_type :: "pystr option"
  tu_default_capacity :: "int option"
  tu_validity_months :: "int option"
  tu_cpd_hours :: "real option"
  tu_default_trainer :: "pystr option"
  tu_default_venue_id :: "int option"

definition row_to_template :: "template_row \<Rightarrow> course_template_out" where
  "row_to_template row =
     \<lparr> name = t_name row,
       course_type = t_course_type row,
       course_title = or_opt (t_course_title row) (t_default_title row),
       provider_type = t_provider_type row,
       default_capacity = t_default_capacity row,
       validity_months = t_validity_months row,
       cpd_hours = t_cpd_hours row,
       default_trainer = t_default_trainer row,
       default_venue_id = t_default_venue_id row,
       template_id = t_id row \<rparr>"

text \<open>The row the \<open>INSERT\<close> of \<open>create_course_template\<close> adds.\<close>

definition template_values :: "int \<Rightarrow> course_template_base \<Rightarrow> template_row" where
  "template_values new_id body =
     \<lparr> t_id = new_id,
       t_name = name body,
       t_course_type = course_type body,
       t_default_title = course_title body,
       t_default_venue_id = default_venue_id body,
       t_default_trainer = default_trainer body,
       t_default_capacity = default_capacity body,
       t_course_title = course_title body,
       t_provider_type = provider_type body,
       t_validity_months = validity_months body,
       t_cpd_hours = cpd_hours body \<rparr>"

text \<open>
  \<open>create_course_template\<close>. The \<open>INSERT\<close> binds the three integers of the body.
\<close>

definition create_course_template ::
    "db \<Rightarrow> course_template_base \<Rightarrow> db \<times> (http_error + course_template_out)" where
  "create_course_template d body =
     (if \<not> bindable [default_venue_id body, default_capacity body, validity_months body]
      then (d, Inl (Unhandled OverflowError))
      else let new_id = lastrowid (map t_id (course_templates d));
               d' = d \<lparr> course_templates := course_templates d @ [template_values new_id body] \<rparr>
           in (case fetchone t_id (course_templates d') new_id of
                 None \<Rightarrow> (d', Inl (HTTPException 500 (lit ''Failed to fetch created template'')))
               | Some row \<Rightarrow> (d', Inr (row_to_template row))))"

text \<open>The merge of \<open>update_course_template\<close>: the \<open>CourseTemplateBase\<close> called \<open>new\<close>.\<close>

definition merge_template :: "course_template_out \<Rightarrow> course_template_update \<Rightarrow> course_template_base" where
  "merge_template current updates =
     \<lparr> name = or_str (tu_name updates) (name current),
       course_type = or_opt (tu_course_type updates) (course_type current),
       course_title = or_opt (tu_course_title updates) (course_title current),
       provider_type = or_opt (tu_provider_type updates) (provider_type current),
       default_capacity = if_not_none_opt (tu_default_capacity updates) (default_capacity current),
       validity_months = if_not_none_opt (tu_validity_months updates) (validity_months current),
       cpd_hours = if_not_none_opt (tu_cpd_hours updates) (cpd_hours current),
       default_trainer = if_not_none_opt (tu_default_trainer updates) (default_trainer current),
       default_venue_id = if_not_none_opt (tu_default_venue_id updates) (default_venue_id current) \<rparr>"

text \<open>The \<open>SET\<close> clause of the \<open>UPDATE\<close>, with the values of \<open>new\<close> bound to it.\<close>

definition set_template :: "course_template_base \<Rightarrow> template_row \<Rightarrow> template_row" where
  "set_template new r =
     r \<lparr> t_name := name new,
         t_course_type := course_type new,
         t_default_title := course_title new,
         t_default_venue_id := default_venue_id new,
         t_default_trainer := default_trainer new,
         t_default_capacity := default_capacity new,
         t_course_title := course_title new,
         t_provider_type := provider_type new,
         t_validity_months := validity_months new,
         t_cpd_hours := cpd_hours new \<rparr>"

text \<open>
  \<open>update_course_template\<close>. The \<open>UPDATE\<close> binds the three merged integers; when it
  raises, the connection rolls back and nothing has been written. A row that is gone at
  the last read would make \<open>row_to_template\<close> raise \<open>TypeError\<close>.
\<close>

definition update_course_template ::
    "db \<Rightarrow> int \<Rightarrow> course_template_update \<Rightarrow> db \<times> (http_error + course_template_out)" where
  "update_course_template d tid updates =
     (case select_by_id t_id (course_templates d) tid of
        Inl e \<Rightarrow> (d, Inl (Unhandled e))
      | Inr None \<Rightarrow> (d, Inl (HTTPException 404 (lit ''Template not found'')))
      | Inr (Some row) \<Rightarrow>
          let current = row_to_template row;
              new = merge_template current updates
          in if \<not> bindable [default_venue_id new, default_capacity new, validity_months new]
             then (d, Inl (Unhandled OverflowError))
             else let d' = d \<lparr> course_templates :=
                            update_where t_id tid (set_template new) (course_templates d) \<rparr>
                  in (case fetchone t_id (course_templates d') tid of
                        None \<Rightarrow> (d', Inl (Unhandled TypeError))
                      | Some updated_row \<Rightarrow> (d', Inr (row_to_template updated_row))))"

section \<open>Users\<close>

record user =
  user_id :: int
  first_name :: pystr
  surname :: pystr
  full_name :: pystr
  role :: pystr
  email :: "pystr option"
  must_change_password :: bool

record user_update =
  uu_first_name :: "pystr option"
  uu_surname :: "pystr option"
  uu_full_name :: "pystr option"
  uu_role :: "pystr option"
  uu_email :: "pystr option"
  uu_must_change_password :: "bool option"
  uu_password :: "pystr option"

definition row_to_user :: "user_row \<Rightarrow> user" where
  "row_to_user row =
     \<lparr> user_id = u_id row,
       first_name = u_first_name row,
       surname = u_surname row,
       full_name = u_full_name row,
       role = u_role row,
       email = u_email row,
       must_change_password = (u_must_change_password row \<noteq> 0) \<rparr>"

text \<open>The truth value of an optional string in a condition.\<close>

definition truthy :: "pystr option \<Rightarrow> bool" where
  "truthy a = (case a of None \<Rightarrow> False | Some s \<Rightarrow> s \<noteq> [])"

text \<open>The values \<open>update_user\<close> computes from the row it read and the request.\<close>

definition merge_user :: "py_runtime \<Rightarrow> user_row \<Rightarrow> user_update \<Rightarrow> user_row" where
  "merge_user rt row updates =
     (let new_first_name = or_str (uu_first_name updates) (u_first_name row);
          new_surname = or_str (uu_surname updates) (u_surname row);
          new_full_name =
            (if truthy (uu_full_name updates) then the (uu_full_name updates)
             else if truthy (uu_first_name updates) \<or> truthy (uu_surname updates)
               then py_strip (new_first_name @ [32] @ new_surname)
               else u_full_name row);
          new_email = if_not_none_opt (uu_email updates) (u_email row);
          new_role = or_str (uu_role updates) (u_role row);
          new_must_change =
            if_not_none (uu_must_change_password updates) (u_must_change_password row \<noteq> 0);
          new_password_hash =
            (if truthy (uu_password updates) then rt_hash_password rt (the (uu_password updates))
             else u_password_hash row)
      in row \<lparr> u_first_name := new_first_name,
               u_surname := new_surname,
               u_full_name := new_full_name,
               u_email := new_email,
               u_role := new_role,
               u_must_change_password := (if new_must_change then 1 else 0),
               u_password_hash := new_password_hash \<rparr>)"

text \<open>The \<open>SET\<close> clause of the \<open>UPDATE\<close>, with the new values bound to it.\<close>

definition set_user :: "user_row \<Rightarrow> user_row \<Rightarrow> user_row" where
  "set_user new r =
     r \<lparr> u_first_name := u_first_name new,
         u_surname := u_surname new,
         u_full_name := u_full_name new,
         u_email := u_email new,
         u_role := u_role new,
         u_must_change_password := u_must_change_password new,
         u_password_hash := u_password_hash new \<rparr>"

text \<open>
  \<open>update_user\<close>. Besides the id, the \<open>UPDATE\<close> binds strings and the flag as 0 or 1.
\<close>

definition update_user :: "py_runtime \<Rightarrow> db \<Rightarrow> int \<Rightarrow> user_update \<Rightarrow> db \<times> (http_error + user)" where
  "update_user rt d uid updates =
     (case select_by_id u_id (users d) uid of
        Inl e \<Rightarrow> (d, Inl (Unhandled e))
      | Inr None \<Rightarrow> (d, Inl (HTTPException 404 (lit ''User not found'')))
      | Inr (Some row) \<Rightarrow>
          let new = merge_user rt row updates;
              d' = d \<lparr> users := update_where u_id uid (set_user new) (users d) \<rparr>
          in (case fetchone u_id (users d') uid of
                None \<Rightarrow> (d', Inl (Unhandled TypeError))
              | Some updated_row \<Rightarrow> (d', Inr (row_to_user updated_row))))"

section \<open>Participants\<close>

record participant =
  participant_id :: int
  course_id :: int
  pt_first_name :: pystr
  pt_surname :: pystr
  contact_number :: "pystr option"
  pt_email :: "pystr option"
  payment_status :: "pystr option"
  pt_notes :: "pystr option"
  joining_sent :: bool

record participant_update =
  pu_first_name :: "pystr option"
  pu_surname :: "pystr option"
  pu_contact_number :: "pystr option"
  pu_email :: "pystr option"
  pu_payment_status :: "pystr option"
  pu_notes :: "pystr option"
  pu_joining_sent :: "bool option"

definition row_to_participant :: "participant_row \<Rightarrow> participant" where
  "row_to_participant row =
     \<lparr> participant_id = p_id row,
       course_id = p_course_id row,
       pt_first_name = p_first_name row,
       pt_surname = p_surname row,
       contact_number = p_contact_number row,
       pt_email = p_email row,
       payment_status = p_payment_status row,
       pt_notes = p_notes row,
       joining_sent = (p_joining_sent row \<noteq> 0) \<rparr>"

text \<open>The dictionary \<open>updated\<close> of \<open>update_participant\<close>, as the row it is written to.\<close>

definition merge_participant :: "participant_row \<Rightarrow> participant_update \<Rightarrow> participant_row" where
  "merge_participant current payload =
     current \<lparr> p_first_name := if_not_none (pu_first_name payload) (p_first_name current),
               p_surname := if_not_none (pu_surname payload) (p_surname current),
               p_contact_number := if_not_none_opt (pu_contact_number payload) (p_contact_number current),
               p_email := if_not_none_opt (pu_email payload) (p_email current),
               p_payment_status := if_not_none_opt (pu_payment_status payload) (p_payment_status current),
               p_joining_sent :=
                 (case pu_joining_sent payload of
                    Some True \<Rightarrow> 1
                  | Some False \<Rightarrow> 0
                  | None \<Rightarrow> p_joining_sent current),
               p_notes := if_not_none_opt (pu_notes payload) (p_notes current) \<rparr>"

text \<open>The \<open>SET\<close> clause of the \<open>UPDATE\<close>, with the values of \<open>updated\<close> bound to it.\<close>

definition set_participant :: "participant_row \<Rightarrow> participant_row \<Rightarrow> participant_row" where
  "set_participant updated r =
     r \<lparr> p_first_name := p_first_name updated,
         p_surname := p_surname updated,
         p_contact_number := p_contact_number updated,
         p_email := p_email updated,
         p_payment_status := p_payment_status updated,
         p_joining_sent := p_joining_sent updated,
         p_notes := p_notes updated \<rparr>"

text \<open>
  \<open>update_participant\<close>. Besides the id, the \<open>UPDATE\<close> binds strings and
  \<open>joining_sent\<close>.
\<close>

definition update_participant ::
    "db \<Rightarrow> int \<Rightarrow> participant_update \<Rightarrow> db \<times> (http_error + participant)" where
  "update_participant d pid payload =
     (case select_by_id p_id (participants d) pid of
        Inl e \<Rightarrow> (d, Inl (Unhandled e))
      | Inr None \<Rightarrow> (d, Inl (HTTPException 404 (lit ''Participant not found'')))
      | Inr (Some row) \<Rightarrow>
          let updated = merge_participant row payload
          in if \<not> bindable [Some (p_joining_sent updated)]
             then (d, Inl (Unhandled OverflowError))
             else let d' = d \<lparr> participants :=
                            update_where p_id pid (set_participant updated) (participants d) \<rparr>
                  in (case fetchone p_id (participants d') pid of
                        None \<Rightarrow> (d', Inl (HTTPException 500 (lit ''Failed to fetch updated participant'')))
                      | Some row' \<Rightarrow> (d', Inr (row_to_participant row'))))"

section \<open>The specification's wording\<close>

text \<open>
  Cohort numbering as the specification words it: among the references of the
  template that contain \<open>-<year>-\<close>, take the last segment between dashes and collect
  it when it reads as an integer; the next cohort is the largest collected number plus
  one, or one.
\<close>

definition refs_of_year :: "course_row list \<Rightarrow> int \<Rightarrow> pystr \<Rightarrow> pystr list" where
  "refs_of_year cs tid yr =
     filter (sublist ([45] @ yr @ [45]))
       (List.map_filter c_course_ref (filter (\<lambda>c. c_template_id c = Some tid) cs))"

definition collected :: "py_runtime \<Rightarrow> course_row list \<Rightarrow> int \<Rightarrow> pystr \<Rightarrow> int list" where
  "collected rt cs tid yr =
     List.map_filter (\<lambda>r. py_int rt (last (py_split 45 r))) (refs_of_year cs tid yr)"

definition spec_next_cohort :: "py_runtime \<Rightarrow> course_row list \<Rightarrow> int \<Rightarrow> pystr \<Rightarrow> int" where
  "spec_next_cohort rt cs tid yr =
     (if collected rt cs tid yr = [] then 1 else Max (set (collected rt cs tid yr)) + 1)"

text \<open>
  The short name as the specification words it: walk the name, drop what is neither
  letter nor digit, and put what is kept in upper case.
\<close>

fun spec_shortname :: "py_runtime \<Rightarrow> pystr \<Rightarrow> pystr" where
  "spec_shortname rt [] = []"
| "spec_shortname rt (c # cs) =
     (if py_isalnum rt c then upper_char rt c @ spec_shortname rt cs
      else spec_shortname rt cs)"

text \<open>
  A pattern character that stands for itself alone under \<open>LIKE\<close>: no wildcard and
  no letter.
\<close>

definition plain :: "codepoint \<Rightarrow> bool" where
  "plain p \<longleftrightarrow> p \<noteq> 37 \<and> p \<noteq> 95 \<and> \<not> is_ascii_letter p"

text \<open>The number a string of decimal digits denotes.\<close>

definition digits_value :: "pystr \<Rightarrow> nat" where
  "digits_value s = foldl (\<lambda>a c. a * 10 + (c - 48)) 0 s"

text \<open>
  Capacity as the specification words it: the proposed capacity if present and
  positive, otherwise the template's default, and 12 only if that is absent.
\<close>

definition spec_capacity :: "int option \<Rightarrow> int option \<Rightarrow> int" where
  "spec_capacity proposed template_default =
     (case proposed of
        Some n \<Rightarrow> if 0 < n then n else (case template_default of Some c \<Rightarrow> c | None \<Rightarrow> 12)
      | None \<Rightarrow> (case template_default of Some c \<Rightarrow> c | None \<Rightarrow> 12))"

text \<open>The row a request leaves in the store: what a later read of that id returns.\<close>

definition template_after :: "db \<Rightarrow> int \<Rightarrow> course_template_update \<Rightarrow> template_row option" where
  "template_after d tid u = fetchone t_id (course_templates (fst (update_course_template d tid u))) tid"

definition user_after :: "py_runtime \<Rightarrow> db \<Rightarrow> int \<Rightarrow> user_update \<Rightarrow> user_row option" where
  "user_after rt d uid u = fetchone u_id (users (fst (update_user rt d uid u))) uid"

definition participant_after :: "db \<Rightarrow> int \<Rightarrow> participant_update \<Rightarrow> participant_row option" where
  "participant_after d pid u = fetchone p_id (participants (fst (update_participant d pid u))) pid"

text \<open>The course row \<open>create_course\<close> has inserted: the last of the table.\<close>

definition created_course :: "py_runtime \<Rightarrow> db \<Rightarrow> course_create \<Rightarrow> course_row" where
  "created_course rt d p = last (courses (fst (create_course rt d p)))"

text \<open>The legacy column \<open>default_title\<close> mirrors \<open>course_title\<close>.\<close>

definition titles_mirrored :: "template_row \<Rightarrow> bool" where
  "titles_mirrored r \<longleftrightarrow> t_default_title r = t_course_title r"

text \<open>The store with other default trainers and venues in its templates.\<close>

definition with_defaults ::
    "(template_row \<Rightarrow> pystr option) \<Rightarrow> (template_row \<Rightarrow> int option) \<Rightarrow> db \<Rightarrow> db" where
  "with_defaults tr ve d =
     d \<lparr> course_templates :=
           map (\<lambda>t. t \<lparr> t_default_trainer := tr t, t_default_venue_id := ve t \<rparr>) (course_templates d) \<rparr>"

section \<open>Data of the examples\<close>

text \<open>A course row of which only the id, the template and the reference are set.\<close>

definition legacy_course :: "int \<Rightarrow> int \<Rightarrow> pystr \<Rightarrow> course_row" where
  "legacy_course i tid ref =
     \<lparr> c_id = i, c_course_ref = Some ref, c_course_date = None, c_template_id = Some tid,
       c_course_title = None, c_trainer = None, c_venue_id = None, c_capacity = None,
       c_status = None \<rparr>"


text \<open>\<open>"FREC 3 \<endash> Qualsafe"\<close>; the dash is U+2013.\<close>

definition frec_name :: pystr where
  "frec_name = lit ''FREC 3 '' @ [8211] @ lit '' Qualsafe''"

text \<open>
  An interpreter that knows no letter, digit or case beyond ASCII and pads the year,
  and the same on glibc, which does not pad it.
\<close>

definition ascii_runtime :: py_runtime where
  "ascii_runtime =
     \<lparr> rt_isalnum = (\<lambda>c. False), rt_upper = (\<lambda>c. [c]), rt_decimal = (\<lambda>c. None),
       rt_max_str_digits = 4300, rt_hash_password = (\<lambda>p. lit ''salt:'' @ p),
       rt_pad_year = True \<rparr>"

text \<open>An empty store, and stores and requests of one row each.\<close>

definition glibc_runtime :: py_runtime where
  "glibc_runtime = ascii_runtime \<lparr> rt_pad_year := False \<rparr>"

definition empty_db :: db where
  "empty_db = \<lparr> course_templates = [], courses = [], venues = [], users = [], participants = [] \<rparr>"

definition first_aid :: template_row where
  "first_aid =
     \<lparr> t_id = 1, t_name = lit ''First Aid'', t_course_type = None,
       t_default_title = Some (lit ''Legacy title''), t_default_venue_id = Some 3,
       t_default_trainer = Some (lit ''Sam''), t_default_capacity = Some 0,
       t_course_title = None, t_provider_type = None, t_validity_months = None,
       t_cpd_hours = None \<rparr>"

definition first_aid_db :: db where
  "first_aid_db = empty_db \<lparr> course_templates := [first_aid] \<rparr>"

definition request_2024 :: course_create where
  "request_2024 =
     \<lparr> cc_template_id = 1, cc_course_date = \<lparr> d_year = 2024, d_month = 1, d_day = 15 \<rparr>,
       cc_venue_id = None, cc_trainer = [], cc_capacity = None, cc_status = lit ''Planned'' \<rparr>"

text \<open>Requests that supply no field.\<close>

definition no_template_update :: course_template_update where
  "no_template_update =
     \<lparr> tu_name = None, tu_course_type = None, tu_course_title = None, tu_provider_type = None,
       tu_default_capacity = None, tu_validity_months = None, tu_cpd_hours = None,
       tu_default_trainer = None, tu_default_venue_id = None \<rparr>"

definition no_user_update :: user_update where
  "no_user_update =
     \<lparr> uu_first_name = None, uu_surname = None, uu_full_name = None, uu_role = None,
       uu_email = None, uu_must_change_password = None, uu_password = None \<rparr>"

definition no_participant_update :: participant_update where
  "no_participant_update =
     \<lparr> pu_first_name = None, pu_surname = None, pu_contact_number = None, pu_email = None,
       pu_payment_status = None, pu_notes = None, pu_joining_sent = None \<rparr>"

definition jane :: user_row where
  "jane =
     \<lparr> u_id = 1, u_first_name = lit ''Jane'', u_surname = lit ''Doe'',
       u_full_name = lit ''Jane Doe'', u_email = Some (lit ''jane@example.org''),
       u_role = lit ''admin'', u_must_change_password = 0, u_password_hash = lit ''00:11'' \<rparr>"


definition ann :: participant_row where
  "ann =
     \<lparr> p_id = 1, p_course_id = 1, p_first_name = lit ''Ann'', p_surname = lit ''Lee'',
       p_contact_number = None, p_email = Some (lit ''ann@example.org''),
       p_payment_status = None, p_joining_sent = 0, p_notes = None \<rparr>"

definition ann_db :: db where
  "ann_db = empty_db \<lparr> participants := [ann] \<rparr>"

text \<open>A second template, with a default capacity of 8, and requests and updates for the examples.\<close>

definition plumbing :: template_row where
  "plumbing = first_aid \<lparr> t_id := 2, t_name := lit ''Plumbing'', t_default_capacity := Some 8 \<rparr>"

definition plumbing_db :: db where
  "plumbing_db = empty_db \<lparr> course_templates := [first_aid, plumbing] \<rparr>"

definition plumbing_request :: course_create where
  "plumbing_request = request_2024 \<lparr> cc_template_id := 2, cc_capacity := Some 0 \<rparr>"

definition sam_request :: course_create where
  "sam_request = request_2024 \<lparr> cc_trainer := lit ''Kim'', cc_venue_id := Some 9 \<rparr>"

definition blank_name_zero_capacity :: course_template_update where
  "blank_name_zero_capacity =
     no_template_update \<lparr> tu_name := Some [], tu_default_capacity := Some 0 \<rparr>"


definition retitle :: course_template_update where
  "retitle = no_template_update \<lparr> tu_course_title := Some (lit ''Pipes'') \<rparr>"

definition pipes_body :: course_template_base where
  "pipes_body =
     \<lparr> name = lit ''Pipes'', course_type = None, course_title = Some (lit ''Pipework''),
       provider_type = None, default_capacity = None, validity_months = None,
       cpd_hours = None, default_trainer = None, default_venue_id = None \<rparr>"

definition blank_first_name :: participant_update where
  "blank_first_name = no_participant_update \<lparr> pu_first_name := Some [] \<rparr>"

definition office_db :: db where
  "office_db =
     empty_db \<lparr> course_templates := [first_aid, plumbing], users := [jane], participants := [ann] \<rparr>"

definition blank_template_strings :: course_template_update where
  "blank_template_strings =
     no_template_update \<lparr> tu_name := Some [], tu_default_trainer := Some [] \<rparr>"

definition blank_user_strings :: user_update where
  "blank_user_strings = no_user_update \<lparr> uu_role := Some [], uu_email := Some [] \<rparr>"

text \<open>A store with a reference of the year 999, and a request dated in that year.\<close>

definition legacy_999_db :: db where
  "legacy_999_db = first_aid_db \<lparr> courses := [legacy_course 1 1 (lit ''FIRSTAID-999-007'')] \<rparr>"

definition request_999 :: course_create where
  "request_999 = request_2024 \<lparr> cc_course_date := \<lparr> d_year = 999, d_month = 1, d_day = 15 \<rparr> \<rparr>"

section \<open>Facts about the model\<close>

lemma like_fold_plain: "plain p \<Longrightarrow> like_fold p = like_fold c \<longleftrightarrow> p = c"
  by (auto simp: plain_def like_fold_def is_ascii_letter_def is_ascii_lower_def is_ascii_upper_def split: if_splits)

lemma like_percent_all: "like [37] t"
  by (induction t) auto

lemma like_literal_prefix:
  "\<forall>p\<in>set ps. plain p \<Longrightarrow> like (ps @ [37]) t \<longleftrightarrow> prefix ps t"
proof (induction ps arbitrary: t)
  case Nil
  then show ?case by (simp add: like_percent_all)
next
  case (Cons p ps)
  then have pl: "plain p" and ne: "p \<noteq> 37" "p \<noteq> 95" by (auto simp: plain_def)
  show ?case
  proof (cases t)
    case Nil
    then show ?thesis using ne by simp
  next
    case (Cons c cs)
    then show ?thesis using ne Cons.IH[of cs] Cons.prems like_fold_plain[OF pl, of c] by auto
  qed
qed

lemma like_percent_suffix:
  "like (37 # ps) t \<longleftrightarrow> (\<exists>pre s. t = pre @ s \<and> like ps s)"
proof (induction t)
  case Nil
  then show ?case by simp
next
  case (Cons c cs)
  show ?case
  proof
    assume "like (37 # ps) (c # cs)"
    then consider "like ps (c # cs)" | "like (37 # ps) cs" by auto
    then show "\<exists>pre s. c # cs = pre @ s \<and> like ps s"
    proof cases
      case 1
      then show ?thesis by (intro exI[of _ "[]"] exI[of _ "c # cs"]) simp
    next
      case 2
      then obtain pre s where "cs = pre @ s" "like ps s" using Cons.IH by blast
      then show ?thesis by (intro exI[of _ "c # pre"] exI[of _ s]) simp
    qed
  next
    assume "\<exists>pre s. c # cs = pre @ s \<and> like ps s"
    then obtain pre s where e: "c # cs = pre @ s" and l: "like ps s" by blast
    show "like (37 # ps) (c # cs)"
    proof (cases pre)
      case Nil
      then have "like ps (c # cs)" using e l by simp
      then show ?thesis by simp
    next
      case (Cons a pre')
      then have "cs = pre' @ s" using e by simp
      then have "like (37 # ps) cs" using Cons.IH l by blast
      then show ?thesis by simp
    qed
  qed
qed

lemma like_contains:
  assumes "\<forall>p\<in>set ps. plain p"
  shows "like ([37] @ ps @ [37]) t \<longleftrightarrow> sublist ps t"
proof -
  have "like (37 # (ps @ [37])) t \<longleftrightarrow> (\<exists>pre s. t = pre @ s \<and> prefix ps s)"
    using like_percent_suffix[of "ps @ [37]" t] like_literal_prefix[OF assms] by simp
  also have "\<dots> \<longleftrightarrow> sublist ps t"
    by (auto simp: sublist_def prefix_def)
  finally show ?thesis by simp
qed

lemma digit_plain: "is_ascii_digit c \<Longrightarrow> plain c"
  by (auto simp: plain_def is_ascii_digit_def is_ascii_letter_def is_ascii_lower_def is_ascii_upper_def)

lemma dash_plain: "plain 45"
  by (simp add: plain_def is_ascii_letter_def is_ascii_lower_def is_ascii_upper_def)

lemma like_year:
  assumes "\<forall>c\<in>set yr. is_ascii_digit c"
  shows "like ([37, 45] @ yr @ [45, 37]) r \<longleftrightarrow> sublist ([45] @ yr @ [45]) r"
proof -
  have "\<forall>p\<in>set ([45] @ yr @ [45]). plain p"
    using assms by (auto simp: digit_plain dash_plain)
  from like_contains[OF this, of r] show ?thesis by simp
qed

lemma py_split_not_Nil: "py_split sep s \<noteq> []"
  by (induction s) (auto split: list.splits)

lemma length_py_split: "length (py_split sep s) = Suc (length (filter (\<lambda>c. c = sep) s))"
  by (induction s) (auto split: list.splits simp: py_split_not_Nil)

lemma py_split_no_sep: "p \<in> set (py_split sep s) \<Longrightarrow> sep \<notin> set p"
  by (induction s arbitrary: p) (auto split: list.splits if_splits)

lemma sublist_three_parts:
  assumes "sublist ([45] @ yr @ [45]) r"
  shows "r \<noteq> [] \<and> \<not> length (py_split 45 r) < 3"
proof -
  obtain pre post where "r = pre @ ([45] @ yr @ [45]) @ post"
    using assms by (auto simp: sublist_def)
  then show ?thesis by (simp add: length_py_split)
qed

lemma scan_refs_map_filter:
  "\<forall>r\<in>set rows. r \<noteq> [] \<and> \<not> length (py_split 45 r) < 3 \<Longrightarrow>
   scan_refs rt rows acc = acc @ List.map_filter (\<lambda>r. py_int rt (last (py_split 45 r))) rows"
  by (induction rows arbitrary: acc) (auto simp: Let_def split: option.splits)

lemma select_course_refs_eq:
  "select_course_refs cs tid pat =
     filter (like pat) (List.map_filter c_course_ref (filter (\<lambda>c. c_template_id c = Some tid) cs))"
  by (induction cs) (auto simp: select_course_refs_def split: option.splits)

lemma py_max_Max: "xs \<noteq> [] \<Longrightarrow> py_max xs = Max (set xs)"
  by (cases xs) (simp_all add: Max.set_eq_fold [symmetric])

lemma next_cohort_refines:
  assumes "\<forall>c\<in>set yr. is_ascii_digit c"
  shows "get_next_cohort_number rt cs tid yr = spec_next_cohort rt cs tid yr"
proof -
  have rows: "select_course_refs cs tid ([37, 45] @ yr @ [45, 37]) = refs_of_year cs tid yr"
    unfolding select_course_refs_eq refs_of_year_def
    using like_year[OF assms] by (intro filter_cong) simp_all
  have "\<forall>r\<in>set (refs_of_year cs tid yr). r \<noteq> [] \<and> \<not> length (py_split 45 r) < 3"
    using sublist_three_parts by (auto simp: refs_of_year_def)
  then have "scan_refs rt (refs_of_year cs tid yr) [] = collected rt cs tid yr"
    by (simp add: scan_refs_map_filter collected_def)
  then show ?thesis
    by (simp add: get_next_cohort_number_def spec_next_cohort_def rows py_max_Max Let_def del: append.simps)
qed

lemma fetchone_update_where:
  assumes "fetchone key rows i = Some row" and "\<And>r. key (f r) = key r"
  shows "fetchone key (update_where key i f rows) i = Some (f row)"
  using assms(1) unfolding fetchone_def update_where_def
  by (induction rows) (auto simp: assms(2) split: if_splits)

lemma fetchone_key: "fetchone key rows i = Some row \<Longrightarrow> key row = i \<and> row \<in> set rows"
  unfolding fetchone_def by (induction rows) (auto split: if_splits)

lemma fetchone_append_new:
  "key row = i \<Longrightarrow> \<exists>r. fetchone key (rows @ [row]) i = Some r"
  unfolding fetchone_def by (cases "find (\<lambda>r. key r = i) (rows @ [row])") (auto simp: find_None_iff)

lemma le_py_max: "i \<in> set ids \<Longrightarrow> i \<le> py_max ids"
proof -
  assume a: "i \<in> set ids"
  then have "ids \<noteq> []" by auto
  then have "py_max ids = Max (set ids)" by (cases ids) (simp_all add: Max.set_eq_fold [symmetric])
  then show ?thesis using a by simp
qed

lemma lastrowid_fresh: "lastrowid ids \<notin> set ids"
proof
  assume a: "lastrowid ids \<in> set ids"
  then have "lastrowid ids \<le> py_max ids" by (rule le_py_max)
  moreover have "ids \<noteq> []" using a by auto
  ultimately show False by (simp add: lastrowid_def)
qed

lemma fetchone_append_fresh:
  "i \<notin> key ` set rows \<Longrightarrow> key row = i \<Longrightarrow> fetchone key (rows @ [row]) i = Some row"
  unfolding fetchone_def by (induction rows) auto

lemma t_id_set_template: "t_id (set_template new r) = t_id r"
  by (simp add: set_template_def)

lemma u_id_set_user: "u_id (set_user new r) = u_id r"
  by (simp add: set_user_def)

lemma set_user_merge: "set_user (merge_user rt row u) row = merge_user rt row u"
  by (simp add: set_user_def merge_user_def Let_def)

lemma p_id_set_participant: "p_id (set_participant new r) = p_id r"
  by (simp add: set_participant_def)

lemma set_participant_merge: "set_participant (merge_participant row u) row = merge_participant row u"
  by (simp add: set_participant_def merge_participant_def)

lemma c_id_course_values: "c_id (course_values rt cs tmpl p i) = i"
  by (simp add: course_values_def Let_def)

lemma dec_digits: "\<forall>c\<in>set (dec n). is_ascii_digit c"
proof (induction n rule: dec.induct)
  case (1 n)
  show ?case
  proof (cases "n < 10")
    case True
    then show ?thesis by (subst dec.simps) (simp add: is_ascii_digit_def)
  next
    case False
    have "n mod 10 < 10" by simp
    then have "is_ascii_digit (48 + n mod 10)" unfolding is_ascii_digit_def by linarith
    then show ?thesis using False 1 by (subst dec.simps) simp
  qed
qed

lemma dec_not_Nil: "dec n \<noteq> []"
  by (subst dec.simps) simp

lemma digits_value_snoc: "digits_value (s @ [c]) = digits_value s * 10 + (c - 48)"
  by (simp add: digits_value_def)

lemma digits_value_dec: "digits_value (dec n) = n"
proof (induction n rule: dec.induct)
  case (1 n)
  show ?case
  proof (cases "n < 10")
    case True
    then show ?thesis by (subst dec.simps) (simp add: digits_value_def)
  next
    case False
    then have "dec n = dec (n div 10) @ [48 + n mod 10]" by (subst dec.simps) simp
    then show ?thesis using 1 False by (simp add: digits_value_snoc)
  qed
qed

lemma digits_value_zeros: "foldl (\<lambda>a c. a * 10 + (c - 48)) 0 (replicate k 48 @ s) = foldl (\<lambda>a c. a * 10 + (c - 48)) (0::nat) s"
  by (induction k) simp_all

lemma digits_value_zfill: "digits_value (zfill w s) = digits_value s"
  by (simp add: zfill_def digits_value_def digits_value_zeros del: foldl_append)

lemma zfill_digits: "\<forall>c\<in>set s. is_ascii_digit c \<Longrightarrow> \<forall>c\<in>set (zfill w s). is_ascii_digit c"
  by (auto simp: zfill_def is_ascii_digit_def)

lemma length_zfill: "length (zfill w s) = max w (length s)"
  by (simp add: zfill_def)

lemma length_dec_small: "n \<le> 999 \<Longrightarrow> length (dec n) \<le> 3"
proof -
  assume a: "n \<le> 999"
  have d1: "\<And>m. m < 10 \<Longrightarrow> length (dec m) = 1" by (subst dec.simps) simp
  have d2: "\<And>m. m < 100 \<Longrightarrow> length (dec m) \<le> 2"
  proof -
    fix m :: nat assume "m < 100"
    then have "m div 10 < 10" by simp
    then show "length (dec m) \<le> 2" using d1[of "m div 10"] d1[of m] by (subst dec.simps) simp
  qed
  have "n div 10 < 100" using a by simp
  then show ?thesis using d2[of "n div 10"] d1[of n] by (subst dec.simps) simp
qed

lemma length_dec_large: "999 < n \<Longrightarrow> 3 < length (dec n)"
proof -
  assume a: "999 < n"
  have l: "\<And>m. 0 < length (dec m)" using dec_not_Nil by simp
  have s: "\<And>m. \<not> m < 10 \<Longrightarrow> length (dec m) = Suc (length (dec (m div 10)))"
    by (subst dec.simps) simp
  have "\<not> n < 10" "\<not> n div 10 < 10" "\<not> n div 10 div 10 < 10" using a by auto
  then show ?thesis using s[of n] s[of "n div 10"] s[of "n div 10 div 10"] l[of "n div 10 div 10 div 10"]
    by linarith
qed

lemma zfill_long: "w \<le> length s \<Longrightarrow> zfill w s = s"
  by (simp add: zfill_def)

lemma to_ascii_number_not_dash: "c \<noteq> 45 \<Longrightarrow> to_ascii_number rt c \<noteq> 45"
  by (auto simp: to_ascii_number_def split: option.splits)

lemma set_strip_subset: "set (rev (dropWhile P (rev (dropWhile P t)))) \<subseteq> set t"
proof -
  have "set (dropWhile P (rev (dropWhile P t))) \<subseteq> set (rev (dropWhile P t))"
    by (rule set_dropWhileD[THEN subsetI]) 
  then show ?thesis using set_dropWhileD[of _ P t] by auto
qed

lemma py_int_nonneg:
  assumes "py_int rt s = Some n" and "45 \<notin> set s"
  shows "0 \<le> n"
proof -
  define t where "t = map (to_ascii_number rt) s"
  define body where "body = rev (dropWhile is_ascii_space (rev (dropWhile is_ascii_space t)))"
  have "45 \<notin> set t"
  proof
    assume "45 \<in> set t"
    then obtain c where "c \<in> set s" "to_ascii_number rt c = 45" by (auto simp: t_def)
    then show False using assms(2) to_ascii_number_not_dash[of c rt] by metis
  qed
  then have nd: "45 \<notin> set body"
    using set_strip_subset[of is_ascii_space t] unfolding body_def by blast
  have eq: "py_int rt s =
      (case body of
         [] \<Rightarrow> None
       | c # cs \<Rightarrow>
           if c = 45 then map_option (\<lambda>n. - int n) (parse_unsigned rt cs)
           else if c = 43 then map_option int (parse_unsigned rt cs)
           else map_option int (parse_unsigned rt (c # cs)))"
    by (simp add: py_int_def body_def t_def Let_def)
  show ?thesis
    using assms(1) nd unfolding eq by (cases body) (auto split: if_splits)
qed

lemma last_py_split_no_sep: "sep \<notin> set (last (py_split sep s))"
  using py_split_no_sep[of "last (py_split sep s)" sep s] py_split_not_Nil[of sep s] by simp

lemma collected_nonneg: "n \<in> set (collected rt cs tid yr) \<Longrightarrow> 0 \<le> n"
  using py_int_nonneg last_py_split_no_sep
  by (fastforce simp: collected_def List.map_filter_def)

lemma spec_next_cohort_pos: "1 \<le> spec_next_cohort rt cs tid yr"
proof (cases "collected rt cs tid yr = []")
  case True
  then show ?thesis by (simp add: spec_next_cohort_def)
next
  case False
  then obtain n where n: "n \<in> set (collected rt cs tid yr)" by (cases "collected rt cs tid yr") auto
  then have "0 \<le> n" by (rule collected_nonneg)
  moreover have "n \<le> Max (set (collected rt cs tid yr))" using n by simp
  ultimately show ?thesis using False by (simp add: spec_next_cohort_def)
qed

lemma format_03d_nonneg: "0 \<le> n \<Longrightarrow> format_03d n = zfill 3 (dec (nat n))"
  by (simp add: format_03d_def)

lemma fetchone_None: "fetchone key rows i = None \<longleftrightarrow> i \<notin> key ` set rows"
  by (auto simp: fetchone_def find_None_iff)

lemma shortname_walk: "get_template_shortname rt nm = spec_shortname rt nm"
  by (induction nm) (simp_all add: get_template_shortname_def py_upper_def)

lemma spec_shortname_append:
  "spec_shortname rt (a @ b) = spec_shortname rt a @ spec_shortname rt b"
  by (induction a) simp_all

lemma shortname_ascii:
  "\<forall>c\<in>set nm. c < 128 \<Longrightarrow>
   get_template_shortname rt nm =
     map (\<lambda>c. if is_ascii_lower c then c - 32 else c)
       (filter (\<lambda>c. is_ascii_letter c \<or> is_ascii_digit c) nm)"
  by (induction nm) (simp_all add: shortname_walk py_isalnum_def upper_char_def)

lemma course_values_capacity:
  "c_capacity (course_values rt cs tmpl p i) =
     Some (case cc_capacity p of
             Some n \<Rightarrow> if 0 < n then n
                       else (case t_default_capacity tmpl of
                               Some c \<Rightarrow> if c \<noteq> 0 then c else 12 | None \<Rightarrow> 12)
           | None \<Rightarrow> (case t_default_capacity tmpl of
                        Some c \<Rightarrow> if c \<noteq> 0 then c else 12 | None \<Rightarrow> 12))"
  by (auto simp: course_values_def Let_def split: option.splits)

lemma fetchone_map:
  "(\<And>r. key (g r) = key r) \<Longrightarrow> fetchone key (map g rows) i = map_option g (fetchone key rows i)"
  unfolding fetchone_def by (induction rows) auto

lemma select_course_with_defaults:
  "select_course (with_defaults tr ve d) i = select_course d i"
proof -
  have v: "venues (with_defaults tr ve d) = venues d" "courses (with_defaults tr ve d) = courses d"
    by (simp_all add: with_defaults_def)
  show ?thesis unfolding select_course_def v by (rule refl)
qed

lemma zfill_dec_one: "zfill 3 (dec 1) = lit ''001''"
  by code_simp

lemma template_values_mirrored:
  "t_course_title (template_values i body) = course_title body \<and>
   t_default_title (template_values i body) = course_title body"
  by (simp add: template_values_def)

lemma set_template_mirrored:
  "t_course_title (set_template new r) = course_title new \<and>
   t_default_title (set_template new r) = course_title new"
  by (simp add: set_template_def)

lemma update_where_mirrored:
  "list_all titles_mirrored rows \<Longrightarrow>
   list_all titles_mirrored (update_where t_id tid (set_template new) rows)"
  by (induction rows) (auto simp: update_where_def titles_mirrored_def set_template_mirrored)

lemma merge_template_blank_title:
  "tu_course_title u = Some [] \<Longrightarrow>
   merge_template cur u = merge_template cur (u \<lparr> tu_course_title := None \<rparr>)"
  by (simp add: merge_template_def or_opt_def)

lemma merge_user_blank_full_name:
  "uu_full_name u = Some [] \<Longrightarrow> merge_user rt row u = merge_user rt row (u \<lparr> uu_full_name := None \<rparr>)"
  by (simp add: merge_user_def truthy_def)

lemma template_blank_fields:
  assumes "r = set_template (merge_template (row_to_template row) u) row"
  shows "(tu_name u = Some [] \<longrightarrow> t_name r = t_name row) \<and>
         (tu_course_type u = Some [] \<longrightarrow> t_course_type r = t_course_type row) \<and>
         (tu_provider_type u = Some [] \<longrightarrow> t_provider_type r = t_provider_type row) \<and>
         (tu_course_title u = Some [] \<longrightarrow>
            t_course_title r = or_opt (t_course_title row) (t_default_title row)) \<and>
         (tu_default_trainer u = Some [] \<longrightarrow> t_default_trainer r = Some [])"
  by (simp add: assms set_template_def merge_template_def row_to_template_def or_str_def
      or_opt_def if_not_none_opt_def)

lemma user_blank_fields:
  assumes "r = merge_user rt row u"
  shows "(uu_first_name u = Some [] \<longrightarrow> u_first_name r = u_first_name row) \<and>
         (uu_surname u = Some [] \<longrightarrow> u_surname r = u_surname row) \<and>
         (uu_role u = Some [] \<longrightarrow> u_role r = u_role row) \<and>
         (uu_password u = Some [] \<longrightarrow> u_password_hash r = u_password_hash row) \<and>
         (uu_email u = Some [] \<longrightarrow> u_email r = Some [])"
  by (simp add: assms merge_user_def Let_def or_str_def truthy_def if_not_none_opt_def)

lemma participant_blank_fields:
  assumes "r = merge_participant row u"
  shows "(pu_first_name u = Some [] \<longrightarrow> p_first_name r = []) \<and>
         (pu_surname u = Some [] \<longrightarrow> p_surname r = []) \<and>
         (pu_contact_number u = Some [] \<longrightarrow> p_contact_number r = Some []) \<and>
         (pu_email u = Some [] \<longrightarrow> p_email r = Some []) \<and>
         (pu_payment_status u = Some [] \<longrightarrow> p_payment_status r = Some []) \<and>
         (pu_notes u = Some [] \<longrightarrow> p_notes r = Some [])"
  by (simp add: assms merge_participant_def if_not_none_def if_not_none_opt_def)

lemma select_by_id_found:
  "fetchone key rows i = Some r \<Longrightarrow> select_by_id key rows i = Inr (Some r)"
  by (simp add: select_by_id_def)

lemma select_by_id_absent:
  "fetchone key rows i = None \<Longrightarrow>
   select_by_id key rows i = (if int64 i then Inr None else Inl OverflowError)"
  by (simp add: select_by_id_def)

lemma succeeded_Inr: "succeeded (s, Inr v)"
  by (simp add: succeeded_def)

lemma succeeded_Inl: "\<not> succeeded (s, Inl e)"
  by (simp add: succeeded_def)

lemma strftime_Y_digits: "\<forall>c\<in>set (strftime_Y rt dt). is_ascii_digit c"
  using zfill_digits[OF dec_digits] dec_digits by (simp add: strftime_Y_def)

lemma strftime_Y_value: "digits_value (strftime_Y rt dt) = d_year dt"
  by (simp add: strftime_Y_def digits_value_zfill digits_value_dec)

lemma strftime_Y_four: "1000 \<le> d_year dt \<Longrightarrow> strftime_Y rt dt = dec (d_year dt)"
  using length_dec_large[of "d_year dt"] by (simp add: strftime_Y_def zfill_long)

lemma course_values_ref:
  "c_course_ref (course_values rt cs tmpl p i) =
     Some (get_template_shortname rt (t_name tmpl) @ [45] @ strftime_Y rt (cc_course_date p) @ [45] @
           format_03d (get_next_cohort_number rt cs (cc_template_id p) (strftime_Y rt (cc_course_date p))))"
  by (simp add: course_values_def Let_def)

lemma course_values_defaults:
  "course_values rt cs (tmpl \<lparr> t_default_trainer := a, t_default_venue_id := b \<rparr>) p i =
   course_values rt cs tmpl p i"
  by (simp add: course_values_def)

lemma next_cohort_pos:
  "1 \<le> get_next_cohort_number rt cs tid (strftime_Y rt' dt)"
  using next_cohort_refines[OF strftime_Y_digits, of rt cs tid rt' dt]
    spec_next_cohort_pos[of rt cs tid "strftime_Y rt' dt"]
  by simp

lemma next_cohort_first:
  "refs_of_year cs tid (strftime_Y rt' dt) = [] \<Longrightarrow>
   get_next_cohort_number rt cs tid (strftime_Y rt' dt) = 1"
  using next_cohort_refines[OF strftime_Y_digits, of rt cs tid rt' dt]
  by (simp add: spec_next_cohort_def collected_def)

lemma create_course_absent:
  assumes "fetchone t_id (course_templates d) (cc_template_id p) = None"
  shows "create_course rt d p =
           (d, Inl (if int64 (cc_template_id p) then HTTPException 404 (lit ''Template not found'')
                    else Unhandled OverflowError))"
  by (simp add: create_course_def select_by_id_absent[OF assms])

lemma create_course_unbindable:
  assumes "fetchone t_id (course_templates d) (cc_template_id p) = Some tmpl"
    and "\<not> bindable [c_venue_id (course_values rt (courses d) tmpl p (lastrowid (map c_id (courses d)))),
                       c_capacity (course_values rt (courses d) tmpl p (lastrowid (map c_id (courses d))))]"
  shows "create_course rt d p = (d, Inl (Unhandled OverflowError))"
  using assms(2) by (simp add: create_course_def select_by_id_found[OF assms(1)] Let_def)

lemma create_course_found:
  assumes "fetchone t_id (course_templates d) (cc_template_id p) = Some tmpl"
    and "bindable [c_venue_id (course_values rt (courses d) tmpl p (lastrowid (map c_id (courses d)))),
                   c_capacity (course_values rt (courses d) tmpl p (lastrowid (map c_id (courses d))))]"
  shows "\<exists>out. create_course rt d p =
           (d \<lparr> courses := courses d @
                  [course_values rt (courses d) tmpl p (lastrowid (map c_id (courses d)))] \<rparr>,
            Inr out)"
proof -
  let ?i = "lastrowid (map c_id (courses d))"
  let ?row = "course_values rt (courses d) tmpl p ?i"
  obtain r where "fetchone c_id (courses d @ [?row]) ?i = Some r"
    using fetchone_append_new[of c_id ?row ?i "courses d"] c_id_course_values by blast
  then show ?thesis
    using assms(2)
    by (simp add: create_course_def select_by_id_found[OF assms(1)] Let_def select_course_def)
qed

lemma create_course_succeeded:
  assumes "succeeded (create_course rt d p)"
  shows "\<exists>tmpl. fetchone t_id (course_templates d) (cc_template_id p) = Some tmpl \<and>
           fst (create_course rt d p) =
             d \<lparr> courses := courses d @
                  [course_values rt (courses d) tmpl p (lastrowid (map c_id (courses d)))] \<rparr>"
proof (cases "fetchone t_id (course_templates d) (cc_template_id p)")
  case None
  then show ?thesis using assms by (simp add: create_course_absent succeeded_def)
next
  case (Some tmpl)
  let ?row = "course_values rt (courses d) tmpl p (lastrowid (map c_id (courses d)))"
  show ?thesis
  proof (cases "bindable [c_venue_id ?row, c_capacity ?row]")
    case True
    from create_course_found[OF Some True] obtain out where
      "create_course rt d p = (d \<lparr> courses := courses d @ [?row] \<rparr>, Inr out)" by blast
    then show ?thesis using Some by simp
  next
    case False
    then show ?thesis using assms create_course_unbindable[OF Some False]
      by (simp add: succeeded_def)
  qed
qed

lemma created_course_succeeded:
  assumes "succeeded (create_course rt d p)"
  shows "\<exists>tmpl. fetchone t_id (course_templates d) (cc_template_id p) = Some tmpl \<and>
           created_course rt d p =
             course_values rt (courses d) tmpl p (lastrowid (map c_id (courses d))) \<and>
           courses (fst (create_course rt d p)) = courses d @ [created_course rt d p]"
  using create_course_succeeded[OF assms] by (auto simp: created_course_def)

lemma create_course_failed:
  assumes "\<not> succeeded (create_course rt d p)"
  shows "fst (create_course rt d p) = d"
proof (cases "fetchone t_id (course_templates d) (cc_template_id p)")
  case None
  then show ?thesis by (simp add: create_course_absent)
next
  case (Some tmpl)
  let ?row = "course_values rt (courses d) tmpl p (lastrowid (map c_id (courses d)))"
  show ?thesis
  proof (cases "bindable [c_venue_id ?row, c_capacity ?row]")
    case True
    from create_course_found[OF Some True] obtain out where
      "create_course rt d p = (d \<lparr> courses := courses d @ [?row] \<rparr>, Inr out)" by blast
    then show ?thesis using assms by (simp add: succeeded_def)
  next
    case False
    then show ?thesis by (simp add: create_course_unbindable[OF Some False])
  qed
qed

lemma create_course_with_defaults:
  "create_course rt (with_defaults tr ve d) p =
     (with_defaults tr ve (fst (create_course rt d p)), snd (create_course rt d p))"
proof -
  let ?g = "\<lambda>t. t \<lparr> t_default_trainer := tr t, t_default_venue_id := ve t \<rparr>"
  have f: "fetchone t_id (course_templates (with_defaults tr ve d)) (cc_template_id p) =
           map_option ?g (fetchone t_id (course_templates d) (cc_template_id p))"
    unfolding with_defaults_def by (simp add: fetchone_map)
  have c: "courses (with_defaults tr ve d) = courses d" by (simp add: with_defaults_def)
  have w: "\<And>cs. (with_defaults tr ve d) \<lparr> courses := cs \<rparr> = with_defaults tr ve (d \<lparr> courses := cs \<rparr>)"
    by (simp add: with_defaults_def)
  show ?thesis
  proof (cases "fetchone t_id (course_templates d) (cc_template_id p)")
    case None
    then have "fetchone t_id (course_templates (with_defaults tr ve d)) (cc_template_id p) = None"
      using f by simp
    then show ?thesis using None by (simp add: create_course_absent)
  next
    case (Some tmpl)
    then have s: "fetchone t_id (course_templates (with_defaults tr ve d)) (cc_template_id p) =
        Some (?g tmpl)"
      using f by simp
    show ?thesis
      by (simp add: create_course_def select_by_id_found[OF s] select_by_id_found[OF Some] c w
          course_values_defaults select_course_with_defaults Let_def split: option.splits)
  qed
qed

lemma update_template_absent:
  assumes "fetchone t_id (course_templates d) tid = None"
  shows "update_course_template d tid u =
           (d, Inl (if int64 tid then HTTPException 404 (lit ''Template not found'')
                    else Unhandled OverflowError))"
  by (simp add: update_course_template_def select_by_id_absent[OF assms])

lemma update_template_unbindable:
  assumes "fetchone t_id (course_templates d) tid = Some row"
    and "\<not> bindable [default_venue_id (merge_template (row_to_template row) u),
                       default_capacity (merge_template (row_to_template row) u),
                       validity_months (merge_template (row_to_template row) u)]"
  shows "update_course_template d tid u = (d, Inl (Unhandled OverflowError))"
  using assms(2) by (simp add: update_course_template_def select_by_id_found[OF assms(1)] Let_def)

lemma update_template_found:
  assumes "fetchone t_id (course_templates d) tid = Some row"
    and "bindable [default_venue_id (merge_template (row_to_template row) u),
                   default_capacity (merge_template (row_to_template row) u),
                   validity_months (merge_template (row_to_template row) u)]"
  shows "update_course_template d tid u =
           (d \<lparr> course_templates := update_where t_id tid
                  (set_template (merge_template (row_to_template row) u)) (course_templates d) \<rparr>,
            Inr (row_to_template (set_template (merge_template (row_to_template row) u) row)))"
    and "fetchone t_id (course_templates (fst (update_course_template d tid u))) tid =
           Some (set_template (merge_template (row_to_template row) u) row)"
proof -
  have f: "fetchone t_id (update_where t_id tid
              (set_template (merge_template (row_to_template row) u)) (course_templates d)) tid =
           Some (set_template (merge_template (row_to_template row) u) row)"
    using fetchone_update_where[where key = t_id and f = "set_template (merge_template (row_to_template row) u)", OF assms(1)]
    by (simp add: t_id_set_template)
  show g: "update_course_template d tid u =
           (d \<lparr> course_templates := update_where t_id tid
                  (set_template (merge_template (row_to_template row) u)) (course_templates d) \<rparr>,
            Inr (row_to_template (set_template (merge_template (row_to_template row) u) row)))"
    using assms(2)
    by (simp add: update_course_template_def select_by_id_found[OF assms(1)] Let_def f)
  show "fetchone t_id (course_templates (fst (update_course_template d tid u))) tid =
           Some (set_template (merge_template (row_to_template row) u) row)"
    by (simp add: g f)
qed

lemma update_template_succeeded:
  assumes "succeeded (update_course_template d tid u)"
  shows "\<exists>row. fetchone t_id (course_templates d) tid = Some row \<and>
           snd (update_course_template d tid u) =
             Inr (row_to_template (set_template (merge_template (row_to_template row) u) row)) \<and>
           template_after d tid u =
             Some (set_template (merge_template (row_to_template row) u) row)"
proof (cases "fetchone t_id (course_templates d) tid")
  case None
  then show ?thesis using assms by (simp add: update_template_absent succeeded_def)
next
  case (Some row)
  show ?thesis
  proof (cases "bindable [default_venue_id (merge_template (row_to_template row) u),
                   default_capacity (merge_template (row_to_template row) u),
                   validity_months (merge_template (row_to_template row) u)]")
    case True
    show ?thesis
      using Some update_template_found[OF Some True] by (simp add: template_after_def)
  next
    case False
    then show ?thesis using assms update_template_unbindable[OF Some False]
      by (simp add: succeeded_def)
  qed
qed

lemma update_template_failed:
  assumes "\<not> succeeded (update_course_template d tid u)"
  shows "fst (update_course_template d tid u) = d"
proof (cases "fetchone t_id (course_templates d) tid")
  case None
  then show ?thesis by (simp add: update_template_absent)
next
  case (Some row)
  show ?thesis
  proof (cases "bindable [default_venue_id (merge_template (row_to_template row) u),
                   default_capacity (merge_template (row_to_template row) u),
                   validity_months (merge_template (row_to_template row) u)]")
    case True
    then show ?thesis using assms update_template_found(1)[OF Some True]
      by (simp add: succeeded_def)
  next
    case False
    then show ?thesis by (simp add: update_template_unbindable[OF Some False])
  qed
qed

lemma template_after_failed:
  assumes "fetchone t_id (course_templates d) tid = Some row"
    and "\<not> succeeded (update_course_template d tid u)"
  shows "template_after d tid u = Some row"
  by (simp add: template_after_def update_template_failed[OF assms(2)] assms(1))

lemma update_user_found:
  assumes "fetchone u_id (users d) uid = Some row"
  shows "update_user rt d uid u =
           (d \<lparr> users := update_where u_id uid (set_user (merge_user rt row u)) (users d) \<rparr>,
            Inr (row_to_user (merge_user rt row u)))"
    and "fetchone u_id (users (fst (update_user rt d uid u))) uid = Some (merge_user rt row u)"
proof -
  have f: "fetchone u_id (update_where u_id uid (set_user (merge_user rt row u)) (users d)) uid =
           Some (merge_user rt row u)"
    using fetchone_update_where[where key = u_id and f = "set_user (merge_user rt row u)", OF assms]
    by (simp add: set_user_merge u_id_set_user)
  show g: "update_user rt d uid u =
           (d \<lparr> users := update_where u_id uid (set_user (merge_user rt row u)) (users d) \<rparr>,
            Inr (row_to_user (merge_user rt row u)))"
    by (simp add: update_user_def select_by_id_found[OF assms] Let_def f)
  show "fetchone u_id (users (fst (update_user rt d uid u))) uid = Some (merge_user rt row u)"
    by (simp add: g f)
qed

lemma update_user_absent:
  assumes "fetchone u_id (users d) uid = None"
  shows "update_user rt d uid u =
           (d, Inl (if int64 uid then HTTPException 404 (lit ''User not found'')
                    else Unhandled OverflowError))"
  by (simp add: update_user_def select_by_id_absent[OF assms])

lemma user_after_found:
  assumes "fetchone u_id (users d) uid = Some row"
  shows "user_after rt d uid u = Some (merge_user rt row u)"
  unfolding user_after_def by (rule update_user_found(2)[OF assms])

lemma update_participant_absent:
  assumes "fetchone p_id (participants d) pid = None"
  shows "update_participant d pid u =
           (d, Inl (if int64 pid then HTTPException 404 (lit ''Participant not found'')
                    else Unhandled OverflowError))"
  by (simp add: update_participant_def select_by_id_absent[OF assms])

lemma update_participant_unbindable:
  assumes "fetchone p_id (participants d) pid = Some row"
    and "\<not> bindable [Some (p_joining_sent (merge_participant row u))]"
  shows "update_participant d pid u = (d, Inl (Unhandled OverflowError))"
  using assms(2) by (simp add: update_participant_def select_by_id_found[OF assms(1)] Let_def)

lemma update_participant_found:
  assumes "fetchone p_id (participants d) pid = Some row"
    and "bindable [Some (p_joining_sent (merge_participant row u))]"
  shows "update_participant d pid u =
           (d \<lparr> participants := update_where p_id pid (set_participant (merge_participant row u)) (participants d) \<rparr>,
            Inr (row_to_participant (merge_participant row u)))"
    and "fetchone p_id (participants (fst (update_participant d pid u))) pid = Some (merge_participant row u)"
proof -
  have f: "fetchone p_id (update_where p_id pid (set_participant (merge_participant row u)) (participants d)) pid =
           Some (merge_participant row u)"
    using fetchone_update_where[where key = p_id and f = "set_participant (merge_participant row u)", OF assms(1)]
    by (simp add: set_participant_merge p_id_set_participant)
  show g: "update_participant d pid u =
           (d \<lparr> participants := update_where p_id pid (set_participant (merge_participant row u)) (participants d) \<rparr>,
            Inr (row_to_participant (merge_participant row u)))"
    using assms(2)
    by (simp add: update_participant_def select_by_id_found[OF assms(1)] Let_def f)
  show "fetchone p_id (participants (fst (update_participant d pid u))) pid = Some (merge_participant row u)"
    by (simp add: g f)
qed

lemma update_participant_succeeded:
  assumes "succeeded (update_participant d pid u)"
  shows "\<exists>row. fetchone p_id (participants d) pid = Some row \<and>
           participant_after d pid u = Some (merge_participant row u)"
proof (cases "fetchone p_id (participants d) pid")
  case None
  then show ?thesis using assms by (simp add: update_participant_absent succeeded_def)
next
  case (Some row)
  show ?thesis
  proof (cases "bindable [Some (p_joining_sent (merge_participant row u))]")
    case True
    show ?thesis
      using Some update_participant_found(2)[OF Some True] by (simp add: participant_after_def)
  next
    case False
    then show ?thesis using assms update_participant_unbindable[OF Some False]
      by (simp add: succeeded_def)
  qed
qed

lemma create_course_template_unbindable:
  assumes "\<not> bindable [default_venue_id body, default_capacity body, validity_months body]"
  shows "create_course_template d body = (d, Inl (Unhandled OverflowError))"
  using assms by (simp add: create_course_template_def)

lemma create_course_template_result:
  assumes "bindable [default_venue_id body, default_capacity body, validity_months body]"
  shows "create_course_template d body =
     (d \<lparr> course_templates := course_templates d @
            [template_values (lastrowid (map t_id (course_templates d))) body] \<rparr>,
      Inr (row_to_template (template_values (lastrowid (map t_id (course_templates d))) body)))"
proof -
  let ?i = "lastrowid (map t_id (course_templates d))"
  have "?i \<notin> set (map t_id (course_templates d))" by (rule lastrowid_fresh)
  then have "?i \<notin> t_id ` set (course_templates d)" by simp
  moreover have "t_id (template_values ?i body) = ?i" by (simp add: template_values_def)
  ultimately have "fetchone t_id (course_templates d @ [template_values ?i body]) ?i =
      Some (template_values ?i body)"
    by (rule fetchone_append_fresh)
  then show ?thesis using assms by (simp add: create_course_template_def Let_def)
qed

lemma update_course_template_mirrored:
  assumes "list_all titles_mirrored (course_templates d)"
  shows "list_all titles_mirrored (course_templates (fst (update_course_template d tid u)))"
proof (cases "succeeded (update_course_template d tid u)")
  case False
  then show ?thesis using assms by (simp add: update_template_failed)
next
  case True
  then obtain row where r: "fetchone t_id (course_templates d) tid = Some row"
    using update_template_succeeded by blast
  have b: "bindable [default_venue_id (merge_template (row_to_template row) u),
                   default_capacity (merge_template (row_to_template row) u),
                   validity_months (merge_template (row_to_template row) u)]"
  proof (rule ccontr)
    assume n: "\<not> bindable [default_venue_id (merge_template (row_to_template row) u),
                   default_capacity (merge_template (row_to_template row) u),
                   validity_months (merge_template (row_to_template row) u)]"
    show False using True update_template_unbindable[OF r n] by (simp add: succeeded_def)
  qed
  show ?thesis
    using update_where_mirrored[OF assms] by (simp add: update_template_found(1)[OF r b])
qed

lemma create_course_template_mirrored:
  assumes "list_all titles_mirrored (course_templates d)"
  shows "list_all titles_mirrored (course_templates (fst (create_course_template d body)))"
proof (cases "bindable [default_venue_id body, default_capacity body, validity_months body]")
  case True
  show ?thesis
    using assms
    by (simp add: create_course_template_result[OF True] titles_mirrored_def template_values_mirrored)
next
  case False
  then show ?thesis using assms by (simp add: create_course_template_unbindable)
qed

lemma update_template_blank_title:
  assumes "tu_course_title u = Some []"
  shows "update_course_template d tid u = update_course_template d tid (u \<lparr> tu_course_title := None \<rparr>)"
  by (simp add: update_course_template_def merge_template_blank_title[OF assms]
      cong: option.case_cong sum.case_cong)

lemma update_user_blank_full_name:
  assumes "uu_full_name u = Some []"
  shows "update_user rt d uid u = update_user rt d uid (u \<lparr> uu_full_name := None \<rparr>)"
  by (simp add: update_user_def merge_user_blank_full_name[OF assms]
      cong: option.case_cong sum.case_cong)

section \<open>The claims\<close>



text \<open>
  As stated, the claim fails for a participant: the empty string sent as
  \<open>first_name\<close> replaces the stored name.
\<close>

theorem participant_first_name_blanked:
  "fetchone p_id (participants ann_db) 1 = Some ann \<and>
   p_first_name ann = lit ''Ann'' \<and>
   pu_first_name blank_first_name = Some [] \<and>
   succeeded (update_participant ann_db 1 blank_first_name) \<and>
   participant_after ann_db 1 blank_first_name = Some (ann \<lparr> p_first_name := [] \<rparr>)"
  by code_simp

text \<open>
  C2, as the code has it. In a partial update of an existing row the empty string
  leaves the stored value as it was for a template's \<open>name\<close>, \<open>course_type\<close> and
  \<open>provider_type\<close> and for a user's \<open>first_name\<close>, \<open>surname\<close>, \<open>role\<close> and password;
  for a template's \<open>course_title\<close> and a user's \<open>full_name\<close> it has the effect of
  leaving the field out (after an update that succeeds the title stored is the one the
  template reads back with: \<open>course_title\<close>, or \<open>default_title\<close> where that is
  empty). Every string field of a participant, a user's \<open>email\<close> and a template's
  \<open>default_trainer\<close> follow the rule of the numeric fields: after an update that
  succeeds the empty string is stored.
\<close>

theorem empty_string_in_partial_update:
  "(fetchone t_id (course_templates d) tid = Some trow \<longrightarrow>
      (\<exists>r. template_after d tid tu = Some r \<and>
         (tu_name tu = Some [] \<longrightarrow> t_name r = t_name trow) \<and>
         (tu_course_type tu = Some [] \<longrightarrow> t_course_type r = t_course_type trow) \<and>
         (tu_provider_type tu = Some [] \<longrightarrow> t_provider_type r = t_provider_type trow) \<and>
         (succeeded (update_course_template d tid tu) \<longrightarrow>
            (tu_course_title tu = Some [] \<longrightarrow>
               t_course_title r = or_opt (t_course_title trow) (t_default_title trow)) \<and>
            (tu_default_trainer tu = Some [] \<longrightarrow> t_default_trainer r = Some [])))) \<and>
   (tu_course_title tu = Some [] \<longrightarrow>
      update_course_template d tid tu =
        update_course_template d tid (tu \<lparr> tu_course_title := None \<rparr>)) \<and>
   (fetchone u_id (users d) uid = Some urow \<longrightarrow>
      (\<exists>r. user_after rt d uid uu = Some r \<and>
         (uu_first_name uu = Some [] \<longrightarrow> u_first_name r = u_first_name urow) \<and>
         (uu_surname uu = Some [] \<longrightarrow> u_surname r = u_surname urow) \<and>
         (uu_role uu = Some [] \<longrightarrow> u_role r = u_role urow) \<and>
         (uu_password uu = Some [] \<longrightarrow> u_password_hash r = u_password_hash urow) \<and>
         (uu_email uu = Some [] \<longrightarrow> u_email r = Some []))) \<and>
   (uu_full_name uu = Some [] \<longrightarrow>
      update_user rt d uid uu = update_user rt d uid (uu \<lparr> uu_full_name := None \<rparr>)) \<and>
   (succeeded (update_participant d pid pu) \<longrightarrow>
      (\<exists>prow r. fetchone p_id (participants d) pid = Some prow \<and>
         participant_after d pid pu = Some r \<and>
         (pu_first_name pu = Some [] \<longrightarrow> p_first_name r = []) \<and>
         (pu_surname pu = Some [] \<longrightarrow> p_surname r = []) \<and>
         (pu_contact_number pu = Some [] \<longrightarrow> p_contact_number r = Some []) \<and>
         (pu_email pu = Some [] \<longrightarrow> p_email r = Some []) \<and>
         (pu_payment_status pu = Some [] \<longrightarrow> p_payment_status r = Some []) \<and>
         (pu_notes pu = Some [] \<longrightarrow> p_notes r = Some [])))"
proof -
  have t: "fetchone t_id (course_templates d) tid = Some trow \<longrightarrow>
      (\<exists>r. template_after d tid tu = Some r \<and>
         (tu_name tu = Some [] \<longrightarrow> t_name r = t_name trow) \<and>
         (tu_course_type tu = Some [] \<longrightarrow> t_course_type r = t_course_type trow) \<and>
         (tu_provider_type tu = Some [] \<longrightarrow> t_provider_type r = t_provider_type trow) \<and>
         (succeeded (update_course_template d tid tu) \<longrightarrow>
            (tu_course_title tu = Some [] \<longrightarrow>
               t_course_title r = or_opt (t_course_title trow) (t_default_title trow)) \<and>
            (tu_default_trainer tu = Some [] \<longrightarrow> t_default_trainer r = Some [])))"
  proof
    assume f: "fetchone t_id (course_templates d) tid = Some trow"
    show "\<exists>r. template_after d tid tu = Some r \<and>
         (tu_name tu = Some [] \<longrightarrow> t_name r = t_name trow) \<and>
         (tu_course_type tu = Some [] \<longrightarrow> t_course_type r = t_course_type trow) \<and>
         (tu_provider_type tu = Some [] \<longrightarrow> t_provider_type r = t_provider_type trow) \<and>
         (succeeded (update_course_template d tid tu) \<longrightarrow>
            (tu_course_title tu = Some [] \<longrightarrow>
               t_course_title r = or_opt (t_course_title trow) (t_default_title trow)) \<and>
            (tu_default_trainer tu = Some [] \<longrightarrow> t_default_trainer r = Some []))"
    proof (cases "succeeded (update_course_template d tid tu)")
      case True
      from update_template_succeeded[OF True] f
      have a: "template_after d tid tu =
          Some (set_template (merge_template (row_to_template trow) tu) trow)"
        by auto
      show ?thesis
        using a template_blank_fields[OF refl, of tu trow] by blast
    next
      case False
      show ?thesis
        using template_after_failed[OF f False] False by simp
    qed
  qed
  have u: "fetchone u_id (users d) uid = Some urow \<longrightarrow>
      (\<exists>r. user_after rt d uid uu = Some r \<and>
         (uu_first_name uu = Some [] \<longrightarrow> u_first_name r = u_first_name urow) \<and>
         (uu_surname uu = Some [] \<longrightarrow> u_surname r = u_surname urow) \<and>
         (uu_role uu = Some [] \<longrightarrow> u_role r = u_role urow) \<and>
         (uu_password uu = Some [] \<longrightarrow> u_password_hash r = u_password_hash urow) \<and>
         (uu_email uu = Some [] \<longrightarrow> u_email r = Some []))"
    using user_after_found[of d uid urow rt uu] user_blank_fields[OF refl, of uu rt urow] by blast
  have p: "succeeded (update_participant d pid pu) \<longrightarrow>
      (\<exists>prow r. fetchone p_id (participants d) pid = Some prow \<and>
         participant_after d pid pu = Some r \<and>
         (pu_first_name pu = Some [] \<longrightarrow> p_first_name r = []) \<and>
         (pu_surname pu = Some [] \<longrightarrow> p_surname r = []) \<and>
         (pu_contact_number pu = Some [] \<longrightarrow> p_contact_number r = Some []) \<and>
         (pu_email pu = Some [] \<longrightarrow> p_email r = Some []) \<and>
         (pu_payment_status pu = Some [] \<longrightarrow> p_payment_status r = Some []) \<and>
         (pu_notes pu = Some [] \<longrightarrow> p_notes r = Some []))"
  proof
    assume a: "succeeded (update_participant d pid pu)"
    from update_participant_succeeded[OF a] obtain prow where
      f: "fetchone p_id (participants d) pid = Some prow" and
      g: "participant_after d pid pu = Some (merge_participant prow pu)"
      by blast
    show "\<exists>prow r. fetchone p_id (participants d) pid = Some prow \<and>
         participant_after d pid pu = Some r \<and>
         (pu_first_name pu = Some [] \<longrightarrow> p_first_name r = []) \<and>
         (pu_surname pu = Some [] \<longrightarrow> p_surname r = []) \<and>
         (pu_contact_number pu = Some [] \<longrightarrow> p_contact_number r = Some []) \<and>
         (pu_email pu = Some [] \<longrightarrow> p_email r = Some []) \<and>
         (pu_payment_status pu = Some [] \<longrightarrow> p_payment_status r = Some []) \<and>
         (pu_notes pu = Some [] \<longrightarrow> p_notes r = Some [])"
      using f g participant_blank_fields[OF refl, of pu prow] by blast
  qed
  show ?thesis
    using t u p update_template_blank_title[of tu d tid] update_user_blank_full_name[of uu rt d uid]
    by blast
qed

text \<open>The theorem at a concrete store and request.\<close>

theorem empty_string_in_partial_update_witness:
  "succeeded (update_course_template office_db 2 blank_template_strings) \<and>
   succeeded (update_participant office_db 1 blank_first_name) \<and>
   fetchone t_id (course_templates office_db) 2 = Some plumbing \<and>
   fetchone u_id (users office_db) 1 = Some jane \<and>
   fetchone p_id (participants office_db) 1 = Some ann \<and>
   map_option t_name (template_after office_db 2 blank_template_strings) = Some (lit ''Plumbing'') \<and>
   map_option t_default_trainer (template_after office_db 2 blank_template_strings) = Some (Some []) \<and>
   map_option u_role (user_after ascii_runtime office_db 1 blank_user_strings) = Some (lit ''admin'') \<and>
   map_option u_email (user_after ascii_runtime office_db 1 blank_user_strings) = Some (Some []) \<and>
   map_option p_first_name (participant_after office_db 1 blank_first_name) = Some []"
proof -
  have s: "succeeded (update_course_template office_db 2 blank_template_strings)"
    "succeeded (update_participant office_db 1 blank_first_name)"
    by code_simp+
  have h: "fetchone t_id (course_templates office_db) 2 = Some plumbing"
    "fetchone u_id (users office_db) 1 = Some jane"
    "fetchone p_id (participants office_db) 1 = Some ann"
    by code_simp+
  have c: "tu_name blank_template_strings = Some []"
    "tu_default_trainer blank_template_strings = Some []"
    "uu_role blank_user_strings = Some []" "uu_email blank_user_strings = Some []"
    "pu_first_name blank_first_name = Some []"
    "t_name plumbing = lit ''Plumbing''" "u_role jane = lit ''admin''"
    by (simp_all add: blank_template_strings_def blank_user_strings_def blank_first_name_def
        plumbing_def jane_def)
  note w = empty_string_in_partial_update[of office_db 2 plumbing blank_template_strings 1 jane
      ascii_runtime blank_user_strings 1 blank_first_name]
  note wt = w[THEN conjunct1, THEN mp, OF h(1)]
  note wu = w[THEN conjunct2, THEN conjunct2, THEN conjunct1, THEN mp, OF h(2)]
  note wp = w[THEN conjunct2, THEN conjunct2, THEN conjunct2, THEN conjunct2, THEN mp, OF s(2)]
  from wt c(1,2) s(1) obtain r where t: "template_after office_db 2 blank_template_strings = Some r"
    "t_name r = t_name plumbing" "t_default_trainer r = Some []"
    by blast
  from wu c(3,4) obtain r' where u: "user_after ascii_runtime office_db 1 blank_user_strings = Some r'"
    "u_role r' = u_role jane" "u_email r' = Some []"
    by blast
  from wp c(5) obtain r'' where p: "participant_after office_db 1 blank_first_name = Some r''"
    "p_first_name r'' = []"
    by blast
  show ?thesis by (simp add: s h t u p c(6,7))
qed

text \<open>
  As stated, the claim fails for a template whose default capacity is 0: a request
  without capacity stores 12, not the template's default.
\<close>

theorem zero_template_default_counterexample:
  "fetchone t_id (course_templates first_aid_db) (cc_template_id request_2024) = Some first_aid \<and>
   cc_capacity request_2024 = None \<and>
   t_default_capacity first_aid = Some 0 \<and>
   spec_capacity (cc_capacity request_2024) (t_default_capacity first_aid) = 0 \<and>
   succeeded (create_course ascii_runtime first_aid_db request_2024) \<and>
   c_capacity (created_course ascii_runtime first_aid_db request_2024) = Some 12"
  by code_simp

text \<open>
  C3, as the code has it. For every create-course request that succeeds, the template
  exists, one course is added, and its capacity is the proposed capacity if that is
  present and greater than zero; otherwise the template's \<open>default_capacity\<close> if that
  is present and not zero; otherwise (the default absent or zero) it is 12. A request
  with capacity 0 stores the template's default, not zero.
\<close>

theorem capacity_default:
  assumes "succeeded (create_course rt d p)"
  shows "\<exists>tmpl. fetchone t_id (course_templates d) (cc_template_id p) = Some tmpl \<and>
           courses (fst (create_course rt d p)) = courses d @ [created_course rt d p] \<and>
           (\<forall>n. cc_capacity p = Some n \<and> 0 < n \<longrightarrow>
              c_capacity (created_course rt d p) = Some n) \<and>
           (\<forall>c. (cc_capacity p = None \<or> (\<exists>n. cc_capacity p = Some n \<and> n \<le> 0)) \<and>
                t_default_capacity tmpl = Some c \<and> c \<noteq> 0 \<longrightarrow>
              c_capacity (created_course rt d p) = Some c) \<and>
           ((cc_capacity p = None \<or> (\<exists>n. cc_capacity p = Some n \<and> n \<le> 0)) \<and>
                (t_default_capacity tmpl = None \<or> t_default_capacity tmpl = Some 0) \<longrightarrow>
              c_capacity (created_course rt d p) = Some 12) \<and>
           (\<forall>c. cc_capacity p = Some 0 \<and> t_default_capacity tmpl = Some c \<and> c \<noteq> 0 \<longrightarrow>
              c_capacity (created_course rt d p) = Some c)"
proof -
  from created_course_succeeded[OF assms] obtain tmpl where
    t: "fetchone t_id (course_templates d) (cc_template_id p) = Some tmpl" and
    c: "created_course rt d p = course_values rt (courses d) tmpl p (lastrowid (map c_id (courses d)))" and
    s: "courses (fst (create_course rt d p)) = courses d @ [created_course rt d p]"
    by blast
  have "c_capacity (created_course rt d p) =
     Some (case cc_capacity p of
             Some n \<Rightarrow> if 0 < n then n
                       else (case t_default_capacity tmpl of
                               Some c \<Rightarrow> if c \<noteq> 0 then c else 12 | None \<Rightarrow> 12)
           | None \<Rightarrow> (case t_default_capacity tmpl of
                        Some c \<Rightarrow> if c \<noteq> 0 then c else 12 | None \<Rightarrow> 12))"
    unfolding c by (rule course_values_capacity)
  then have "(\<forall>n. cc_capacity p = Some n \<and> 0 < n \<longrightarrow>
              c_capacity (created_course rt d p) = Some n) \<and>
           (\<forall>c. (cc_capacity p = None \<or> (\<exists>n. cc_capacity p = Some n \<and> n \<le> 0)) \<and>
                t_default_capacity tmpl = Some c \<and> c \<noteq> 0 \<longrightarrow>
              c_capacity (created_course rt d p) = Some c) \<and>
           ((cc_capacity p = None \<or> (\<exists>n. cc_capacity p = Some n \<and> n \<le> 0)) \<and>
                (t_default_capacity tmpl = None \<or> t_default_capacity tmpl = Some 0) \<longrightarrow>
              c_capacity (created_course rt d p) = Some 12) \<and>
           (\<forall>c. cc_capacity p = Some 0 \<and> t_default_capacity tmpl = Some c \<and> c \<noteq> 0 \<longrightarrow>
              c_capacity (created_course rt d p) = Some c)"
    by (auto split: option.splits)
  with t s show ?thesis by blast
qed

text \<open>The theorem at a concrete store and request.\<close>

theorem capacity_default_witness:
  "succeeded (create_course ascii_runtime plumbing_db plumbing_request) \<and>
   fetchone t_id (course_templates plumbing_db) (cc_template_id plumbing_request) = Some plumbing \<and>
   cc_capacity plumbing_request = Some 0 \<and> t_default_capacity plumbing = Some 8 \<and>
   c_capacity (created_course ascii_runtime plumbing_db plumbing_request) = Some 8"
proof -
  have s: "succeeded (create_course ascii_runtime plumbing_db plumbing_request)" by code_simp
  have h: "fetchone t_id (course_templates plumbing_db) (cc_template_id plumbing_request) = Some plumbing"
    by code_simp
  have c: "cc_capacity plumbing_request = Some 0" "t_default_capacity plumbing = Some 8"
    by (simp_all add: plumbing_request_def plumbing_def)
  from capacity_default[OF s] h c
  have "c_capacity (created_course ascii_runtime plumbing_db plumbing_request) = Some 8"
    by auto
  with s h c show ?thesis by simp
qed

text \<open>
  C4. For every partial update of an existing course template, proposing the empty
  string as \<open>name\<close> leaves the stored name as it was; and for every such update that
  succeeds, proposing 0 as \<open>default_capacity\<close> stores 0, while the empty \<open>name\<close>
  keeps the name, in the row and in the response.
\<close>

theorem template_update_asymmetry:
  "(fetchone t_id (course_templates d) tid = Some row \<and> tu_name u = Some [] \<longrightarrow>
      (\<exists>r. template_after d tid u = Some r \<and> t_name r = t_name row)) \<and>
   (succeeded (update_course_template d tid u) \<longrightarrow>
      (\<exists>row r out. fetchone t_id (course_templates d) tid = Some row \<and>
         snd (update_course_template d tid u) = Inr out \<and>
         template_after d tid u = Some r \<and>
         (tu_name u = Some [] \<longrightarrow> t_name r = t_name row \<and> name out = t_name row) \<and>
         (tu_default_capacity u = Some 0 \<longrightarrow>
            t_default_capacity r = Some 0 \<and> default_capacity out = Some 0)))"
proof (intro conjI impI)
  assume a: "succeeded (update_course_template d tid u)"
  from update_template_succeeded[OF a] obtain row where
    f: "fetchone t_id (course_templates d) tid = Some row" and
    o: "snd (update_course_template d tid u) =
          Inr (row_to_template (set_template (merge_template (row_to_template row) u) row))" and
    t: "template_after d tid u = Some (set_template (merge_template (row_to_template row) u) row)"
    by blast
  let ?r = "set_template (merge_template (row_to_template row) u) row"
  have n: "tu_name u = Some [] \<longrightarrow> t_name ?r = t_name row \<and> name (row_to_template ?r) = t_name row"
    by (simp add: set_template_def merge_template_def row_to_template_def or_str_def)
  have c: "tu_default_capacity u = Some 0 \<longrightarrow>
             t_default_capacity ?r = Some 0 \<and> default_capacity (row_to_template ?r) = Some 0"
    by (simp add: set_template_def merge_template_def row_to_template_def if_not_none_opt_def)
  show "\<exists>row r out. fetchone t_id (course_templates d) tid = Some row \<and>
         snd (update_course_template d tid u) = Inr out \<and>
         template_after d tid u = Some r \<and>
         (tu_name u = Some [] \<longrightarrow> t_name r = t_name row \<and> name out = t_name row) \<and>
         (tu_default_capacity u = Some 0 \<longrightarrow>
            t_default_capacity r = Some 0 \<and> default_capacity out = Some 0)"
    using f o t n c by blast
next
  assume a: "fetchone t_id (course_templates d) tid = Some row \<and> tu_name u = Some []"
  then have f: "fetchone t_id (course_templates d) tid = Some row" and e: "tu_name u = Some []"
    by simp_all
  show "\<exists>r. template_after d tid u = Some r \<and> t_name r = t_name row"
  proof (cases "succeeded (update_course_template d tid u)")
    case True
    from update_template_succeeded[OF True] f
    have "template_after d tid u = Some (set_template (merge_template (row_to_template row) u) row)"
      by auto
    moreover have "t_name (set_template (merge_template (row_to_template row) u) row) = t_name row"
      using e by (simp add: set_template_def merge_template_def row_to_template_def or_str_def)
    ultimately show ?thesis by blast
  next
    case False
    then show ?thesis using template_after_failed[OF f False] by simp
  qed
qed

text \<open>The theorem at a concrete store and request.\<close>

theorem template_update_asymmetry_witness:
  "succeeded (update_course_template plumbing_db 2 blank_name_zero_capacity) \<and>
   fetchone t_id (course_templates plumbing_db) 2 = Some plumbing \<and>
   tu_name blank_name_zero_capacity = Some [] \<and>
   tu_default_capacity blank_name_zero_capacity = Some 0 \<and>
   t_default_capacity plumbing = Some 8 \<and>
   map_option t_name (template_after plumbing_db 2 blank_name_zero_capacity) = Some (lit ''Plumbing'') \<and>
   map_option t_default_capacity (template_after plumbing_db 2 blank_name_zero_capacity) = Some (Some 0)"
proof -
  have s: "succeeded (update_course_template plumbing_db 2 blank_name_zero_capacity)" by code_simp
  have h: "fetchone t_id (course_templates plumbing_db) 2 = Some plumbing" by code_simp
  have c: "tu_name blank_name_zero_capacity = Some []"
    "tu_default_capacity blank_name_zero_capacity = Some 0"
    "t_default_capacity plumbing = Some 8" "t_name plumbing = lit ''Plumbing''"
    by (simp_all add: blank_name_zero_capacity_def plumbing_def)
  note w = template_update_asymmetry[of plumbing_db 2 plumbing blank_name_zero_capacity,
      THEN conjunct2, THEN mp, OF s]
  from w h c(1,2) obtain r where "template_after plumbing_db 2 blank_name_zero_capacity = Some r"
    "t_name r = t_name plumbing" "t_default_capacity r = Some 0"
    by auto
  with s h c show ?thesis by simp
qed



text \<open>
  C6. For every template name, the short name used in course references is the name
  with every character that is neither letter nor digit removed and the rest put in
  upper case; on an ASCII name these are the letters and digits of ASCII. For the
  name \<open>FREC 3 \<endash> Qualsafe\<close> the short name is \<open>FREC3QUALSAFE\<close>, the interpreter
  classing the dash U+2013 as not alphanumeric.
\<close>

theorem shortname_strips_and_uppercases:
  "get_template_shortname rt nm = spec_shortname rt nm \<and>
   ((\<forall>c\<in>set nm. c < 128) \<longrightarrow>
      get_template_shortname rt nm =
        map (\<lambda>c. if is_ascii_lower c then c - 32 else c)
          (filter (\<lambda>c. is_ascii_letter c \<or> is_ascii_digit c) nm)) \<and>
   (\<not> rt_isalnum rt 8211 \<longrightarrow> get_template_shortname rt frec_name = lit ''FREC3QUALSAFE'')"
proof (intro conjI impI)
  show "get_template_shortname rt nm = spec_shortname rt nm" by (rule shortname_walk)
  show "get_template_shortname rt nm =
        map (\<lambda>c. if is_ascii_lower c then c - 32 else c)
          (filter (\<lambda>c. is_ascii_letter c \<or> is_ascii_digit c) nm)"
    if "\<forall>c\<in>set nm. c < 128" using that by (rule shortname_ascii)
  show "get_template_shortname rt frec_name = lit ''FREC3QUALSAFE''" if "\<not> rt_isalnum rt 8211"
  proof -
    have a: "spec_shortname rt (lit ''FREC 3 '') = lit ''FREC3''" by code_simp
    have b: "spec_shortname rt [8211] = []" using that by (simp add: py_isalnum_def)
    have c: "spec_shortname rt (lit '' Qualsafe'') = lit ''QUALSAFE''" by code_simp
    have "get_template_shortname rt frec_name = lit ''FREC3'' @ [] @ lit ''QUALSAFE''"
      by (simp only: shortname_walk frec_name_def spec_shortname_append a b c)
    then show ?thesis by (simp add: lit_def)
  qed
qed

text \<open>The theorem at a concrete store and request.\<close>

theorem shortname_strips_and_uppercases_witness:
  "list_all (\<lambda>c. c < 128) (lit ''a-1 b'') \<and> \<not> rt_isalnum ascii_runtime 8211 \<and>
   get_template_shortname ascii_runtime (lit ''a-1 b'') = lit ''A1B'' \<and>
   get_template_shortname ascii_runtime frec_name = lit ''FREC3QUALSAFE''"
proof -
  have h: "\<forall>c\<in>set (lit ''a-1 b''). c < 128" by code_simp
  have g: "\<not> rt_isalnum ascii_runtime 8211" by (simp add: ascii_runtime_def)
  have e: "map (\<lambda>c. if is_ascii_lower c then c - 32 else c)
          (filter (\<lambda>c. is_ascii_letter c \<or> is_ascii_digit c) (lit ''a-1 b'')) = lit ''A1B''"
    by code_simp
  from shortname_strips_and_uppercases[of ascii_runtime "lit ''a-1 b''"] h g
  have "get_template_shortname ascii_runtime (lit ''a-1 b'') =
          map (\<lambda>c. if is_ascii_lower c then c - 32 else c)
            (filter (\<lambda>c. is_ascii_letter c \<or> is_ascii_digit c) (lit ''a-1 b''))"
    and "get_template_shortname ascii_runtime frec_name = lit ''FREC3QUALSAFE''"
    by blast+
  with h g e show ?thesis by (simp add: list_all_iff)
qed

text \<open>
  C7. The reference of every course created is the short name, a dash, the year, a
  dash and the cohort number in decimal digits. The year is the year of the course
  date as the platform writes it: in digits that denote it, and for a year from 1000 on
  exactly its decimal digits. The cohort is at least 1, its digits denote exactly the
  cohort, there are three of them (zeros in front) up to 999, and beyond 999 they are
  the whole number in more than three digits. When no reference of the template
  contains \<open>-<year>-\<close>, the digits are \<open>001\<close>.
\<close>

theorem course_ref_format:
  assumes "succeeded (create_course rt d p)"
  shows "\<exists>tmpl yr cohort digits.
           fetchone t_id (course_templates d) (cc_template_id p) = Some tmpl \<and>
           yr = strftime_Y rt (cc_course_date p) \<and>
           list_all is_ascii_digit yr \<and>
           digits_value yr = d_year (cc_course_date p) \<and>
           (1000 \<le> d_year (cc_course_date p) \<longrightarrow> yr = dec (d_year (cc_course_date p))) \<and>
           int cohort = get_next_cohort_number rt (courses d) (cc_template_id p) yr \<and>
           1 \<le> cohort \<and>
           c_course_ref (created_course rt d p) =
             Some (get_template_shortname rt (t_name tmpl) @ [45] @ yr @ [45] @ digits) \<and>
           list_all is_ascii_digit digits \<and>
           digits_value digits = cohort \<and>
           (cohort \<le> 999 \<longrightarrow> length digits = 3) \<and>
           (999 < cohort \<longrightarrow> digits = dec cohort \<and> 3 < length digits) \<and>
           (refs_of_year (courses d) (cc_template_id p) yr = [] \<longrightarrow> digits = lit ''001'')"
proof -
  from created_course_succeeded[OF assms] obtain tmpl where
    t: "fetchone t_id (course_templates d) (cc_template_id p) = Some tmpl" and
    cv: "created_course rt d p = course_values rt (courses d) tmpl p (lastrowid (map c_id (courses d)))"
    by blast
  define yr where "yr = strftime_Y rt (cc_course_date p)"
  let ?n = "get_next_cohort_number rt (courses d) (cc_template_id p) yr"
  define cohort where "cohort = nat ?n"
  define digits where "digits = zfill 3 (dec cohort)"
  have y1: "list_all is_ascii_digit yr"
    unfolding list_all_iff yr_def by (rule strftime_Y_digits)
  have y2: "digits_value yr = d_year (cc_course_date p)"
    unfolding yr_def by (rule strftime_Y_value)
  have y3: "1000 \<le> d_year (cc_course_date p) \<longrightarrow> yr = dec (d_year (cc_course_date p))"
    unfolding yr_def using strftime_Y_four by blast
  have pos: "1 \<le> ?n" unfolding yr_def by (rule next_cohort_pos)
  then have c1: "int cohort = ?n" and c2: "1 \<le> cohort" by (simp_all add: cohort_def)
  have fmt: "format_03d ?n = digits"
    using pos by (simp add: format_03d_nonneg digits_def cohort_def)
  have r: "c_course_ref (created_course rt d p) =
             Some (get_template_shortname rt (t_name tmpl) @ [45] @ yr @ [45] @ digits)"
    unfolding cv course_values_ref yr_def[symmetric] fmt by (rule refl)
  have dg: "list_all is_ascii_digit digits"
    unfolding list_all_iff digits_def by (rule zfill_digits) (rule dec_digits)
  have dv: "digits_value digits = cohort"
    by (simp add: digits_def digits_value_zfill digits_value_dec)
  have small: "cohort \<le> 999 \<longrightarrow> length digits = 3"
    using length_dec_small[of cohort] by (auto simp: digits_def length_zfill)
  have large: "999 < cohort \<longrightarrow> digits = dec cohort \<and> 3 < length digits"
    using length_dec_large[of cohort] by (auto simp: digits_def zfill_long)
  have first: "refs_of_year (courses d) (cc_template_id p) yr = [] \<longrightarrow> digits = lit ''001''"
  proof
    assume "refs_of_year (courses d) (cc_template_id p) yr = []"
    then have "?n = 1" unfolding yr_def by (rule next_cohort_first)
    then have "cohort = 1" by (simp add: cohort_def)
    then show "digits = lit ''001''" unfolding digits_def by (simp only: zfill_dec_one)
  qed
  show ?thesis
    apply (rule exI[of _ tmpl])
    apply (rule exI[of _ yr])
    apply (rule exI[of _ cohort])
    apply (rule exI[of _ digits])
    using t yr_def y1 y2 y3 c1 c2 r dg dv small large first
    apply (intro conjI)
    apply assumption+
    done
qed

text \<open>The theorem at a concrete store and request.\<close>

theorem course_ref_format_witness:
  "succeeded (create_course ascii_runtime first_aid_db request_2024) \<and>
   refs_of_year (courses first_aid_db) (cc_template_id request_2024)
     (strftime_Y ascii_runtime (cc_course_date request_2024)) = [] \<and>
   c_course_ref (created_course ascii_runtime first_aid_db request_2024) =
     Some (lit ''FIRSTAID-2024-001'') \<and>
   succeeded (create_course glibc_runtime legacy_999_db request_999) \<and>
   c_course_ref (created_course glibc_runtime legacy_999_db request_999) =
     Some (lit ''FIRSTAID-999-008'') \<and>
   c_course_ref (created_course ascii_runtime legacy_999_db request_999) =
     Some (lit ''FIRSTAID-0999-001'')"
proof -
  have h: "succeeded (create_course ascii_runtime first_aid_db request_2024)" by code_simp
  have f: "fetchone t_id (course_templates first_aid_db) (cc_template_id request_2024) = Some first_aid"
    by code_simp
  have e: "refs_of_year (courses first_aid_db) (cc_template_id request_2024)
     (strftime_Y ascii_runtime (cc_course_date request_2024)) = []"
    by code_simp
  have s: "get_template_shortname ascii_runtime (t_name first_aid) @ [45] @
           strftime_Y ascii_runtime (cc_course_date request_2024) @ [45] @ lit ''001'' =
           lit ''FIRSTAID-2024-001''"
    by code_simp
  from course_ref_format[OF h] f e
  have "c_course_ref (created_course ascii_runtime first_aid_db request_2024) =
          Some (get_template_shortname ascii_runtime (t_name first_aid) @ [45] @
           strftime_Y ascii_runtime (cc_course_date request_2024) @ [45] @ lit ''001'')"
    by auto
  then have a: "c_course_ref (created_course ascii_runtime first_aid_db request_2024) =
     Some (lit ''FIRSTAID-2024-001'')"
    using s by simp
  have g: "succeeded (create_course glibc_runtime legacy_999_db request_999)" by code_simp
  have g1: "c_course_ref (created_course glibc_runtime legacy_999_db request_999) =
     Some (lit ''FIRSTAID-999-008'')"
    by code_simp
  have g2: "c_course_ref (created_course ascii_runtime legacy_999_db request_999) =
     Some (lit ''FIRSTAID-0999-001'')"
    by code_simp
  show ?thesis using h e a g g1 g2 by simp
qed

text \<open>
  C8. The claim is that a request whose id is the id of no row fails with status 404
  and changes nothing. The code misses the ids that sqlite cannot hold: for the id
  \<open>2^63\<close>, which is the id of no template, user or participant, binding the id raises
  \<open>OverflowError\<close> in \<open>create_course\<close> and in the three updates, which is status 500
  and not 404. The store is left as it was.
\<close>

theorem id_beyond_64_bits_is_not_404:
  "2 ^ 63 \<notin> t_id ` set (course_templates office_db) \<and>
   2 ^ 63 \<notin> u_id ` set (users office_db) \<and>
   2 ^ 63 \<notin> p_id ` set (participants office_db) \<and>
   create_course ascii_runtime office_db (request_2024 \<lparr> cc_template_id := 2 ^ 63 \<rparr>) =
     (office_db, Inl (Unhandled OverflowError)) \<and>
   update_course_template office_db (2 ^ 63) no_template_update =
     (office_db, Inl (Unhandled OverflowError)) \<and>
   update_user ascii_runtime office_db (2 ^ 63) no_user_update =
     (office_db, Inl (Unhandled OverflowError)) \<and>
   update_participant office_db (2 ^ 63) no_participant_update =
     (office_db, Inl (Unhandled OverflowError)) \<and>
   response_status (Unhandled OverflowError) = 500"
proof -
  have n: "\<not> int64 (2 ^ 63)" by (simp add: int64_def)
  have t: "fetchone t_id (course_templates office_db) (2 ^ 63) = None"
    by (simp add: fetchone_def office_db_def empty_db_def first_aid_def plumbing_def)
  have u: "fetchone u_id (users office_db) (2 ^ 63) = None"
    by (simp add: fetchone_def office_db_def empty_db_def jane_def)
  have p: "fetchone p_id (participants office_db) (2 ^ 63) = None"
    by (simp add: fetchone_def office_db_def empty_db_def ann_def)
  have c: "fetchone t_id (course_templates office_db)
             (cc_template_id (request_2024 \<lparr> cc_template_id := 2 ^ 63 \<rparr>)) = None"
    using t by simp
  have r1: "create_course ascii_runtime office_db (request_2024 \<lparr> cc_template_id := 2 ^ 63 \<rparr>) =
     (office_db, Inl (Unhandled OverflowError))"
    unfolding create_course_absent[OF c] using n by simp
  have r2: "update_course_template office_db (2 ^ 63) no_template_update =
     (office_db, Inl (Unhandled OverflowError))"
    unfolding update_template_absent[OF t] using n by simp
  have r3: "update_user ascii_runtime office_db (2 ^ 63) no_user_update =
     (office_db, Inl (Unhandled OverflowError))"
    unfolding update_user_absent[OF u] using n by simp
  have r4: "update_participant office_db (2 ^ 63) no_participant_update =
     (office_db, Inl (Unhandled OverflowError))"
    unfolding update_participant_absent[OF p] using n by simp
  have s: "response_status (Unhandled OverflowError) = 500" by simp
  show ?thesis
    using t u p r1 r2 r3 r4 s unfolding fetchone_None by blast
qed

text \<open>
  C9. Every creation of a course template that succeeds, and every update of one that
  succeeds, writes one value, the merged \<open>course_title\<close>, into the columns
  \<open>course_title\<close> and \<open>default_title\<close> of the row; so the two columns are equal in
  the row written, and if they are equal in every row of the table before a request
  (successful or not), they are so after it.
\<close>

theorem default_title_mirrors_course_title:
  "(succeeded (create_course_template d body) \<longrightarrow>
      (\<exists>r. create_course_template d body =
            (d \<lparr> course_templates := course_templates d @ [r] \<rparr>, Inr (row_to_template r)) \<and>
          t_course_title r = course_title body \<and> t_default_title r = t_course_title r)) \<and>
   (succeeded (update_course_template d tid u) \<longrightarrow>
      (\<exists>row r. fetchone t_id (course_templates d) tid = Some row \<and>
           snd (update_course_template d tid u) = Inr (row_to_template r) \<and>
           template_after d tid u = Some r \<and>
           t_course_title r = course_title (merge_template (row_to_template row) u) \<and>
           t_default_title r = t_course_title r)) \<and>
   (list_all titles_mirrored (course_templates d) \<longrightarrow>
      list_all titles_mirrored (course_templates (fst (create_course_template d body))) \<and>
      list_all titles_mirrored (course_templates (fst (update_course_template d tid u))))"
proof (intro conjI impI)
  assume a: "succeeded (create_course_template d body)"
  have b: "bindable [default_venue_id body, default_capacity body, validity_months body]"
  proof (rule ccontr)
    assume "\<not> bindable [default_venue_id body, default_capacity body, validity_months body]"
    then show False using a by (simp add: create_course_template_unbindable succeeded_def)
  qed
  show "\<exists>r. create_course_template d body =
          (d \<lparr> course_templates := course_templates d @ [r] \<rparr>, Inr (row_to_template r)) \<and>
        t_course_title r = course_title body \<and> t_default_title r = t_course_title r"
    using create_course_template_result[OF b, of d] template_values_mirrored by metis
next
  assume a: "succeeded (update_course_template d tid u)"
  from update_template_succeeded[OF a] obtain row where
    f: "fetchone t_id (course_templates d) tid = Some row" and
    o: "snd (update_course_template d tid u) =
          Inr (row_to_template (set_template (merge_template (row_to_template row) u) row))" and
    t: "template_after d tid u = Some (set_template (merge_template (row_to_template row) u) row)"
    by blast
  show "\<exists>row r. fetchone t_id (course_templates d) tid = Some row \<and>
           snd (update_course_template d tid u) = Inr (row_to_template r) \<and>
           template_after d tid u = Some r \<and>
           t_course_title r = course_title (merge_template (row_to_template row) u) \<and>
           t_default_title r = t_course_title r"
    using f o t set_template_mirrored by metis
next
  assume a: "list_all titles_mirrored (course_templates d)"
  show "list_all titles_mirrored (course_templates (fst (create_course_template d body)))"
    by (rule create_course_template_mirrored[OF a])
  show "list_all titles_mirrored (course_templates (fst (update_course_template d tid u)))"
    by (rule update_course_template_mirrored[OF a])
qed

text \<open>The theorem at a concrete store and request.\<close>

theorem default_title_mirrors_course_title_witness:
  "succeeded (update_course_template plumbing_db 2 retitle) \<and>
   succeeded (create_course_template empty_db pipes_body) \<and>
   fetchone t_id (course_templates plumbing_db) 2 = Some plumbing \<and>
   t_default_title plumbing = Some (lit ''Legacy title'') \<and>
   map_option t_default_title (template_after plumbing_db 2 retitle) = Some (Some (lit ''Pipes'')) \<and>
   map_option t_course_title (template_after plumbing_db 2 retitle) = Some (Some (lit ''Pipes'')) \<and>
   list_all titles_mirrored (course_templates empty_db) \<and>
   list_all titles_mirrored (course_templates (fst (create_course_template empty_db pipes_body)))"
proof -
  have s: "succeeded (update_course_template plumbing_db 2 retitle)"
    "succeeded (create_course_template empty_db pipes_body)"
    by code_simp+
  have h: "fetchone t_id (course_templates plumbing_db) 2 = Some plumbing" by code_simp
  have c: "t_default_title plumbing = Some (lit ''Legacy title'')"
    by (simp add: plumbing_def first_aid_def)
  have m: "course_title (merge_template (row_to_template plumbing) retitle) = Some (lit ''Pipes'')"
    by code_simp
  have e: "list_all titles_mirrored (course_templates empty_db)" by (simp add: empty_db_def)
  note w = default_title_mirrors_course_title[of plumbing_db pipes_body 2 retitle]
  note w2 = default_title_mirrors_course_title[of empty_db pipes_body 2 retitle]
  from w[THEN conjunct2, THEN conjunct1, THEN mp, OF s(1)] h m
  obtain r where "template_after plumbing_db 2 retitle = Some r"
    "t_course_title r = Some (lit ''Pipes'')" "t_default_title r = t_course_title r"
    by auto
  moreover from w2[THEN conjunct2, THEN conjunct2, THEN mp, OF e]
  have "list_all titles_mirrored (course_templates (fst (create_course_template empty_db pipes_body)))"
    by blast
  ultimately show ?thesis using s h c e by simp
qed

text \<open>
  C10. For every create-course request that succeeds, the trainer of the course added
  is the request's \<open>trainer\<close> and its venue is the request's \<open>venue_id\<close>; and for
  every request the course stored and the response are the same whatever
  \<open>default_trainer\<close> and \<open>default_venue_id\<close> the templates hold.
\<close>

theorem trainer_and_venue_from_request:
  "(succeeded (create_course rt d p) \<longrightarrow>
      courses (fst (create_course rt d p)) = courses d @ [created_course rt d p] \<and>
      c_trainer (created_course rt d p) = Some (cc_trainer p) \<and>
      c_venue_id (created_course rt d p) = cc_venue_id p) \<and>
   created_course rt (with_defaults tr ve d) p = created_course rt d p \<and>
   snd (create_course rt (with_defaults tr ve d) p) = snd (create_course rt d p)"
proof (intro conjI impI)
  assume a: "succeeded (create_course rt d p)"
  from created_course_succeeded[OF a] obtain tmpl where
    c: "created_course rt d p = course_values rt (courses d) tmpl p (lastrowid (map c_id (courses d)))" and
    s: "courses (fst (create_course rt d p)) = courses d @ [created_course rt d p]"
    by blast
  show "courses (fst (create_course rt d p)) = courses d @ [created_course rt d p]" by (rule s)
  show "c_trainer (created_course rt d p) = Some (cc_trainer p)"
    by (simp add: c course_values_def Let_def)
  show "c_venue_id (created_course rt d p) = cc_venue_id p"
    by (simp add: c course_values_def Let_def)
next
  show "created_course rt (with_defaults tr ve d) p = created_course rt d p"
    by (simp add: created_course_def create_course_with_defaults) (simp add: with_defaults_def)
  show "snd (create_course rt (with_defaults tr ve d) p) = snd (create_course rt d p)"
    by (simp add: create_course_with_defaults)
qed

text \<open>The theorem at a concrete store and request.\<close>

theorem trainer_and_venue_from_request_witness:
  "succeeded (create_course ascii_runtime first_aid_db sam_request) \<and>
   succeeded (create_course ascii_runtime first_aid_db request_2024) \<and>
   t_default_trainer first_aid = Some (lit ''Sam'') \<and> t_default_venue_id first_aid = Some 3 \<and>
   c_trainer (created_course ascii_runtime first_aid_db sam_request) = Some (lit ''Kim'') \<and>
   c_venue_id (created_course ascii_runtime first_aid_db sam_request) = Some 9 \<and>
   c_trainer (created_course ascii_runtime first_aid_db request_2024) = Some [] \<and>
   c_venue_id (created_course ascii_runtime first_aid_db request_2024) = None"
proof -
  have h: "succeeded (create_course ascii_runtime first_aid_db sam_request)"
    "succeeded (create_course ascii_runtime first_aid_db request_2024)"
    by code_simp+
  have c: "t_default_trainer first_aid = Some (lit ''Sam'')" "t_default_venue_id first_aid = Some 3"
    "cc_trainer sam_request = lit ''Kim''" "cc_venue_id sam_request = Some 9"
    "cc_trainer request_2024 = []" "cc_venue_id request_2024 = None"
    by (simp_all add: first_aid_def sam_request_def request_2024_def)
  note a = trainer_and_venue_from_request[of ascii_runtime first_aid_db sam_request,
      THEN conjunct1, THEN mp, OF h(1)]
  note b = trainer_and_venue_from_request[of ascii_runtime first_aid_db request_2024,
      THEN conjunct1, THEN mp, OF h(2)]
  show ?thesis using a b h c by simp
qed

end
